theory Spec2Isabelle
  imports Complex_Main "HOL-Library.Word"
begin

section \<open>The VTU viewer of CreateVTUViewer.jsx\<close>

text \<open>
  The module reads an unstructured-grid document, turns its cells into a flat triangle
  buffer (\<open>extractCells\<close>), builds a colour ramp over the range of a point scalar
  (\<open>applyColorMap\<close>), assembles the mesh (\<open>addVTUToScene\<close>) and filters points by a
  threshold (\<open>enableThreshold\<close>). The rendering calls (renderer, render window,
  interactor) compute nothing and are left out.

  Conventions of the embedding.
  \<^item> A JavaScript array read \<open>xs[i]\<close> never fails: out of range it yields \<open>undefined\<close>.
    An array element that may be \<open>undefined\<close> is an \<open>option\<close>, with \<open>None\<close> for
    \<open>undefined\<close>.
  \<^item> The numbers of the three cell arrays are point indices, offsets and type codes; they
    are integers (\<open>int\<close>). A number that may be \<open>NaN\<close> (the difference of an offset
    and \<open>undefined\<close>) is an \<open>int option\<close>, with \<open>None\<close> for \<open>NaN\<close>.
  \<^item> Coordinates and scalar values are finite numbers, modelled as \<open>real\<close> with exact
    arithmetic; the results of \<open>Math.min\<close> and \<open>Math.max\<close>, which are infinite on an
    empty argument list, are of type \<open>jsnum\<close>.
  \<^item> A thrown exception is the left summand of a sum type.
\<close>

subsection \<open>Arrays\<close>

definition js_index :: "'a list \<Rightarrow> nat \<Rightarrow> 'a option" where
  \<comment> \<open>\<open>xs[i]\<close> for an index \<open>i \<ge> 0\<close>\<close>
  "js_index xs i = (if i < length xs then Some (xs ! i) else None)"

definition relative_index :: "nat \<Rightarrow> int \<Rightarrow> nat" where
  \<comment> \<open>how \<open>Array.prototype.slice\<close> places an integer argument in an array of length \<open>len\<close>:
      a negative one counts from the end, and the result is clamped to \<open>0..len\<close>\<close>
  "relative_index len r = (if r < 0 then nat (max (int len + r) 0) else min (nat r) len)"

definition js_slice :: "'a list \<Rightarrow> int option \<Rightarrow> int option \<Rightarrow> 'a list" where
  \<comment> \<open>\<open>xs.slice(start, end)\<close>; an \<open>undefined\<close> start is 0, an \<open>undefined\<close> end is the length\<close>
  "js_slice xs start end' =
     (let len = length xs;
          k = (case start of None \<Rightarrow> 0 | Some s \<Rightarrow> relative_index len s);
          final = (case end' of None \<Rightarrow> len | Some e \<Rightarrow> relative_index len e)
      in take (final - k) (drop k xs))"

definition js_minus :: "int option \<Rightarrow> int option \<Rightarrow> int option" where
  \<comment> \<open>\<open>a - b\<close> on numbers or \<open>undefined\<close>: \<open>undefined\<close> converts to \<open>NaN\<close>, and so does the difference\<close>
  "js_minus a b = (case (a, b) of (Some x, Some y) \<Rightarrow> Some (x - y) | _ \<Rightarrow> None)"

definition to_uint32 :: "int option \<Rightarrow> 32 word" where
  \<comment> \<open>the conversion of an element by \<open>new Uint32Array(cells)\<close>: \<open>undefined\<close> becomes 0,
      an integer is reduced modulo \<open>2 ^ 32\<close>\<close>
  "to_uint32 v = (case v of None \<Rightarrow> 0 | Some n \<Rightarrow> word_of_int n)"

subsection \<open>Reading the numbers of a data array\<close>

definition is_space :: "char \<Rightarrow> bool" where
  \<comment> \<open>the one-byte characters of the class \<open>\s\<close>: tab, line feed, vertical tab, form feed,
      carriage return, space\<close>
  "is_space c = (c \<in> {CHR 0x09, CHR 0x0A, CHR 0x0B, CHR 0x0C, CHR 0x0D, CHR 0x20})"

definition js_trim :: "string \<Rightarrow> string" where
  "js_trim s = rev (dropWhile is_space (rev (dropWhile is_space s)))"

fun split_from :: "string \<Rightarrow> bool \<Rightarrow> string \<Rightarrow> string list" where
  \<comment> \<open>\<open>split_from cur in_sep s\<close>: \<open>cur\<close> is the piece being read, \<open>in_sep\<close> tells that the
      last character belonged to a separator\<close>
  "split_from cur in_sep [] = [cur]"
| "split_from cur in_sep (c # cs) =
     (if is_space c then (if in_sep then split_from cur True cs else cur # split_from [] True cs)
      else split_from (cur @ [c]) False cs)"

definition js_split_ws :: "string \<Rightarrow> string list" where
  \<comment> \<open>\<open>s.split(/\s+/)\<close>: the pieces between the maximal runs of white space; the empty
      string gives the one piece \<open>""\<close>\<close>
  "js_split_ws s = split_from [] False s"

definition js_Number :: "(string \<Rightarrow> 'n::zero) \<Rightarrow> string \<Rightarrow> 'n" where
  \<comment> \<open>\<open>Number(tok)\<close> on a piece without white space: the empty piece is 0; \<open>num\<close> is the
      number that a non-empty piece denotes\<close>
  "js_Number num tok = (if tok = [] then 0 else num tok)"

definition parse_numbers :: "(string \<Rightarrow> 'n::zero) \<Rightarrow> string \<Rightarrow> 'n list" where
  \<comment> \<open>\<open>text.trim().split(/\s+/).map(Number)\<close>\<close>
  "parse_numbers num text = map (js_Number num) (js_split_ws (js_trim text))"

definition digit_value :: "char \<Rightarrow> int" where
  "digit_value c = int (of_char c) - 48"

definition decimal :: "string \<Rightarrow> int" where
  \<comment> \<open>the number denoted by a piece made of decimal digits\<close>
  "decimal tok = fold (\<lambda>c n. 10 * n + digit_value c) tok 0"

definition decimal_real :: "string \<Rightarrow> real" where
  "decimal_real tok = real_of_int (decimal tok)"

subsection \<open>The document\<close>

text \<open>
  The parsed document is queried for five things: the text of the first data array under
  \<open>Points\<close>, the texts of the data arrays named \<open>connectivity\<close>, \<open>offsets\<close> and \<open>types\<close>
  under \<open>Cells\<close>, and the data arrays under \<open>PointData\<close> in document order, each with its
  \<open>Name\<close> attribute (\<open>None\<close> when the attribute is missing) and its text. A query that
  finds no element yields \<open>null\<close>, here \<open>None\<close>.
\<close>

record vtu_doc =
  points_text :: "string option"
  connectivity_text :: "string option"
  offsets_text :: "string option"
  types_text :: "string option"
  point_data :: "(string option \<times> string) list"

datatype js_error = Error string | TypeError

subsection \<open>extractCells\<close>

definition VTK_TRIANGLE :: int where "VTK_TRIANGLE = 5"
definition VTK_QUAD :: int where "VTK_QUAD = 9"
definition VTK_TETRA :: int where "VTK_TETRA = 10"
definition VTK_HEXAHEDRON :: int where "VTK_HEXAHEDRON = 12"
definition VTK_WEDGE :: int where "VTK_WEDGE = 13"
definition VTK_PYRAMID :: int where "VTK_PYRAMID = 14"

definition faces :: "nat list list" where
  "faces = [[0, 1, 2, 3], [4, 5, 6, 7], [0, 1, 5, 4], [2, 3, 7, 6], [0, 3, 7, 4], [1, 2, 6, 5]]"

definition wedgeFaces :: "nat list list" where
  "wedgeFaces = [[0, 1, 2], [3, 4, 5], [0, 1, 4, 3], [1, 2, 5, 4], [0, 2, 5, 3]]"

definition pyramidFaces :: "nat list list" where
  "pyramidFaces = [[0, 1, 2, 3], [0, 1, 4], [1, 2, 4], [2, 3, 4], [3, 0, 4]]"

definition push_quad_face :: "int list \<Rightarrow> nat list \<Rightarrow> int option list" where
  \<comment> \<open>what the callback of \<open>faces.forEach\<close> pushes for one four-index face\<close>
  "push_quad_face cellIndices face =
     [Some 3, js_index cellIndices (face ! 0), js_index cellIndices (face ! 1),
              js_index cellIndices (face ! 2),
      Some 3, js_index cellIndices (face ! 0), js_index cellIndices (face ! 2),
              js_index cellIndices (face ! 3)]"

definition push_face :: "int list \<Rightarrow> nat list \<Rightarrow> int option list" where
  \<comment> \<open>the callback of \<open>wedgeFaces.forEach\<close> and of \<open>pyramidFaces.forEach\<close>\<close>
  "push_face cellIndices face =
     (if length face = 3 then Some 3 # map (js_index cellIndices) face
      else push_quad_face cellIndices face)"

definition push_fan :: "int list \<Rightarrow> int \<Rightarrow> int option list" where
  \<comment> \<open>the loop \<open>for (j = 0; j < numPoints - 2; j++)\<close> of the default case\<close>
  "push_fan cellIndices numPoints =
     concat (map (\<lambda>j. [Some 3, js_index cellIndices 0, js_index cellIndices (j + 1),
                        js_index cellIndices (j + 2)])
                 [0 ..< nat (numPoints - 2)])"

definition push_cell :: "int \<Rightarrow> int option \<Rightarrow> int list \<Rightarrow> int option list" where
  \<comment> \<open>the \<open>switch (cellType)\<close>: the elements pushed onto \<open>cells\<close> for one cell\<close>
  "push_cell cellType numPoints cellIndices =
     (if cellType = VTK_TRIANGLE then Some 3 # map Some cellIndices
      else if cellType = VTK_QUAD then
        [Some 3, js_index cellIndices 0, js_index cellIndices 1, js_index cellIndices 2,
         Some 3, js_index cellIndices 0, js_index cellIndices 2, js_index cellIndices 3]
      else if cellType = VTK_TETRA then
        [Some 3, js_index cellIndices 0, js_index cellIndices 1, js_index cellIndices 2,
         Some 3, js_index cellIndices 0, js_index cellIndices 2, js_index cellIndices 3,
         Some 3, js_index cellIndices 0, js_index cellIndices 3, js_index cellIndices 1,
         Some 3, js_index cellIndices 1, js_index cellIndices 3, js_index cellIndices 2]
      else if cellType = VTK_HEXAHEDRON then concat (map (push_quad_face cellIndices) faces)
      else if cellType = VTK_WEDGE then concat (map (push_face cellIndices) wedgeFaces)
      else if cellType = VTK_PYRAMID then concat (map (push_face cellIndices) pyramidFaces)
      else (case numPoints of
              None \<Rightarrow> []
            | Some n \<Rightarrow> if n \<ge> 3 then push_fan cellIndices n else []))"

definition cell_step ::
  "int list \<Rightarrow> int list \<Rightarrow> int list \<Rightarrow> nat \<Rightarrow> int option list \<times> int option
     \<Rightarrow> int option list \<times> int option" where
  \<comment> \<open>one iteration of the loop over \<open>typesArray\<close>, on the state \<open>(cells, previousOffset)\<close>\<close>
  "cell_step connectivityArray offsetsArray typesArray i st =
     (case st of (cells, previousOffset) \<Rightarrow>
        let cellType = typesArray ! i;
            numPoints = js_minus (js_index offsetsArray i) previousOffset;
            cellIndices = js_slice connectivityArray previousOffset (js_index offsetsArray i)
        in (cells @ push_cell cellType numPoints cellIndices, js_index offsetsArray i))"

definition tessellate :: "int list \<Rightarrow> int list \<Rightarrow> int list \<Rightarrow> int option list" where
  \<comment> \<open>the whole loop, from \<open>cells = []\<close> and \<open>previousOffset = 0\<close>\<close>
  "tessellate connectivityArray offsetsArray typesArray =
     fst (fold (cell_step connectivityArray offsetsArray typesArray)
               [0 ..< length typesArray] ([], Some 0))"

definition extractCells :: "(string \<Rightarrow> int) \<Rightarrow> vtu_doc \<Rightarrow> js_error + 32 word list" where
  "extractCells num xmlDoc =
     (case (connectivity_text xmlDoc, offsets_text xmlDoc, types_text xmlDoc) of
        (Some connectivityText, Some offsetsText, Some typesText) \<Rightarrow>
          let connectivityArray = parse_numbers num connectivityText;
              offsetsArray = parse_numbers num offsetsText;
              typesArray = parse_numbers num typesText
          in Inr (map to_uint32 (tessellate connectivityArray offsetsArray typesArray))
      | _ \<Rightarrow> Inl (Error ''Missing required cell data in the VTU file.''))"

subsection \<open>Numbers that may be infinite\<close>

datatype jsnum = Finite real | PosInfinity | NegInfinity | NaN

fun js_neg :: "jsnum \<Rightarrow> jsnum" where
  "js_neg (Finite a) = Finite (- a)"
| "js_neg PosInfinity = NegInfinity"
| "js_neg NegInfinity = PosInfinity"
| "js_neg NaN = NaN"

fun js_add :: "jsnum \<Rightarrow> jsnum \<Rightarrow> jsnum" where
  "js_add NaN y = NaN"
| "js_add x NaN = NaN"
| "js_add (Finite a) (Finite b) = Finite (a + b)"
| "js_add PosInfinity NegInfinity = NaN"
| "js_add NegInfinity PosInfinity = NaN"
| "js_add PosInfinity y = PosInfinity"
| "js_add NegInfinity y = NegInfinity"
| "js_add (Finite a) y = y"

definition js_sub :: "jsnum \<Rightarrow> jsnum \<Rightarrow> jsnum" where
  "js_sub x y = js_add x (js_neg y)"

fun js_scale :: "jsnum \<Rightarrow> real \<Rightarrow> jsnum" where
  \<comment> \<open>\<open>x * c\<close> for a finite number \<open>c\<close>\<close>
  "js_scale (Finite a) c = Finite (a * c)"
| "js_scale NaN c = NaN"
| "js_scale PosInfinity c = (if c > 0 then PosInfinity else if c < 0 then NegInfinity else NaN)"
| "js_scale NegInfinity c = (if c > 0 then NegInfinity else if c < 0 then PosInfinity else NaN)"

definition math_min :: "real list \<Rightarrow> jsnum" where
  \<comment> \<open>\<open>Math.min(...xs)\<close>: \<open>+Infinity\<close> when there is no argument\<close>
  "math_min xs = (case xs of [] \<Rightarrow> PosInfinity | v # vs \<Rightarrow> Finite (fold min vs v))"

definition math_max :: "real list \<Rightarrow> jsnum" where
  \<comment> \<open>\<open>Math.max(...xs)\<close>: \<open>-Infinity\<close> when there is no argument\<close>
  "math_max xs = (case xs of [] \<Rightarrow> NegInfinity | v # vs \<Rightarrow> Finite (fold max vs v))"

subsection \<open>Poly data, data arrays and the mapper\<close>

text \<open>
  Of the rendering library the code uses three kinds of objects as plain containers. A
  data array holds a name and its values. A poly data holds a point buffer, a polygon
  buffer and the active point scalars (\<open>null\<close> until set); a new instance is empty. A
  mapper holds its input poly data (\<open>null\<close> until set), a lookup table and a scalar
  range. The lookup table is the sequence of the RGB points added to it, in the order of
  the calls. An actor is represented by its mapper.
\<close>

record data_array =
  getName :: "string option"
  getData :: "real list"

record polyData =
  getPoints :: "real list"
  getPolys :: "32 word list"
  getScalars :: "data_array option"

definition newPolyData :: polyData where
  "newPolyData = \<lparr>getPoints = [], getPolys = [], getScalars = None\<rparr>"

type_synonym rgb_point = "jsnum \<times> real \<times> real \<times> real"

record mapper =
  getInputData :: "polyData option"
  getLookupTable :: "rgb_point list option"
  getScalarRange :: "jsnum \<times> jsnum"

definition newMapper :: mapper where
  "newMapper = \<lparr>getInputData = None, getLookupTable = None, getScalarRange = (Finite 0, Finite 1)\<rparr>"

subsection \<open>The extractors\<close>

definition getAllScalarFields :: "vtu_doc \<Rightarrow> string option list" where
  "getAllScalarFields xmlDoc = map fst (point_data xmlDoc)"

definition extractPoints :: "(string \<Rightarrow> real) \<Rightarrow> vtu_doc \<Rightarrow> js_error + real list" where
  \<comment> \<open>\<open>pointsTag.textContent\<close> throws a \<open>TypeError\<close> when \<open>pointsTag\<close> is \<open>null\<close>\<close>
  "extractPoints num xmlDoc =
     (case points_text xmlDoc of
        None \<Rightarrow> Inl TypeError
      | Some pointsText \<Rightarrow> Inr (parse_numbers num pointsText))"

definition extractScalars :: "(string \<Rightarrow> real) \<Rightarrow> vtu_doc \<Rightarrow> string \<Rightarrow> data_array option" where
  \<comment> \<open>the first data array of \<open>PointData\<close> whose \<open>Name\<close> is \<open>scalarName\<close> (a name without
      quotes or backslashes, which the selector takes as it is), or \<open>null\<close>\<close>
  "extractScalars num xmlDoc scalarName =
     (case find (\<lambda>scalarTag. fst scalarTag = Some scalarName) (point_data xmlDoc) of
        None \<Rightarrow> None
      | Some scalarTag \<Rightarrow>
          Some \<lparr>getName = fst scalarTag, getData = parse_numbers num (snd scalarTag)\<rparr>)"

subsection \<open>applyColorMap\<close>

definition addRGBPoint :: "rgb_point list \<Rightarrow> jsnum \<Rightarrow> real \<Rightarrow> real \<Rightarrow> real \<Rightarrow> rgb_point list" where
  "addRGBPoint lut x r g b = lut @ [(x, r, g, b)]"

definition applyColorMap :: "mapper \<Rightarrow> jsnum \<times> jsnum \<Rightarrow> mapper" where
  "applyColorMap mapper scalarRange =
     (let lut = [];
          min' = fst scalarRange;
          max' = snd scalarRange;
          lut = addRGBPoint lut min' 0.0 0.0 1.0;
          lut = addRGBPoint lut (js_add min' (js_scale (js_sub max' min') 0.125)) 0.0 0.2157 1.0;
          lut = addRGBPoint lut (js_add min' (js_scale (js_sub max' min') 0.25)) 0.0 0.4275 1.0;
          lut = addRGBPoint lut (js_add min' (js_scale (js_sub max' min') 0.375)) 0.0392 0.6431 0.9961;
          lut = addRGBPoint lut (js_add min' (js_scale (js_sub max' min') 0.5)) 0.2745 0.8157 0.9255;
          lut = addRGBPoint lut (js_add min' (js_scale (js_sub max' min') 0.625)) 0.9961 0.6431 0.4745;
          lut = addRGBPoint lut (js_add min' (js_scale (js_sub max' min') 0.75)) 1.0 0.4275 0.2745;
          lut = addRGBPoint lut (js_add min' (js_scale (js_sub max' min') 0.875)) 1.0 0.2157 0.1333;
          lut = addRGBPoint lut max' 1.0 0.0 0.0
      in mapper\<lparr>getLookupTable := Some lut, getScalarRange := scalarRange\<rparr>)"

subsection \<open>addVTUToScene\<close>

definition scalar_name :: "string option option \<Rightarrow> string" where
  \<comment> \<open>the text that the template literal of \<open>extractScalars\<close> makes of \<open>undefined\<close>, of
      \<open>null\<close> and of a string\<close>
  "scalar_name v = (case v of None \<Rightarrow> ''undefined'' | Some None \<Rightarrow> ''null'' | Some (Some s) \<Rightarrow> s)"

definition select_scalar :: "string option \<Rightarrow> string option list \<Rightarrow> string option option" where
  \<comment> \<open>\<open>options.scalarField || scalarFields[0]\<close>: an absent or empty \<open>scalarField\<close> is falsy\<close>
  "select_scalar scalarField scalarFields =
     (case scalarField of
        None \<Rightarrow> js_index scalarFields 0
      | Some s \<Rightarrow> if s = [] then js_index scalarFields 0 else Some (Some s))"

definition addVTUToScene ::
  "(string \<Rightarrow> int) \<Rightarrow> (string \<Rightarrow> real) \<Rightarrow> vtu_doc \<Rightarrow> string option
     \<Rightarrow> js_error + (polyData \<times> mapper \<times> string option list)" where
  \<comment> \<open>from the parsed document on; the result is \<open>(polyData, actor, scalarFields)\<close>\<close>
  "addVTUToScene inum rnum xmlDoc scalarField =
     (let scalarFields = getAllScalarFields xmlDoc;
          selectedScalar = select_scalar scalarField scalarFields
      in case extractPoints rnum xmlDoc of
           Inl e \<Rightarrow> Inl e
         | Inr points \<Rightarrow>
            (case extractCells inum xmlDoc of
               Inl e \<Rightarrow> Inl e
             | Inr cells \<Rightarrow>
                (let polyData = newPolyData\<lparr>getPoints := points, getPolys := cells\<rparr>;
                     scalars = extractScalars rnum xmlDoc (scalar_name selectedScalar);
                     polyData = polyData\<lparr>getScalars := scalars\<rparr>;
                     mapper = newMapper\<lparr>getInputData := Some polyData\<rparr>
                 in case scalars of
                      None \<Rightarrow> Inl TypeError
                    | Some arr \<Rightarrow>
                       (let scalarRange = (math_min (getData arr), math_max (getData arr))
                        in Inr (polyData, applyColorMap mapper scalarRange, scalarFields)))))"

subsection \<open>enableThreshold\<close>

definition truthy :: "real option \<Rightarrow> bool" where
  \<comment> \<open>a number is truthy unless it is 0; \<open>undefined\<close> is falsy\<close>
  "truthy v = (case v of None \<Rightarrow> False | Some x \<Rightarrow> x \<noteq> 0)"

definition threshold_mask :: "real list \<Rightarrow> real \<Rightarrow> real list" where
  \<comment> \<open>\<open>scalars.map((value) => value > thresholdValue)\<close> on a \<open>Float32Array\<close>, which stores
      \<open>true\<close> as 1 and \<open>false\<close> as 0\<close>
  "threshold_mask scalars thresholdValue =
     map (\<lambda>value. if value > thresholdValue then 1 else 0) scalars"

definition filter_points :: "real list \<Rightarrow> real list \<Rightarrow> real list" where
  \<comment> \<open>\<open>data.filter((_, index) => mask[Math.floor(index / 3)])\<close>\<close>
  "filter_points mask' data =
     map snd (filter (\<lambda>(index, _). truthy (js_index mask' (index div 3))) (enumerate 0 data))"

definition enableThreshold :: "mapper \<Rightarrow> real \<Rightarrow> js_error + mapper" where
  \<comment> \<open>\<open>getInputData()\<close> and \<open>getScalars()\<close> return \<open>null\<close> when nothing was set, and the
      method call on \<open>null\<close> throws a \<open>TypeError\<close>\<close>
  "enableThreshold mapper thresholdValue =
     (case getInputData mapper of
        None \<Rightarrow> Inl TypeError
      | Some polyData \<Rightarrow>
         (case getScalars polyData of
            None \<Rightarrow> Inl TypeError
          | Some arr \<Rightarrow>
             (let scalars = getData arr;
                  mask' = threshold_mask scalars thresholdValue;
                  filteredPoints = filter_points mask' (getPoints polyData);
                  filteredPolyData = newPolyData\<lparr>getPoints := filteredPoints\<rparr>
              in Inr (mapper\<lparr>getInputData := Some filteredPolyData\<rparr>))))"

subsection \<open>Notation of the specification\<close>

definition tri :: "int \<Rightarrow> int \<Rightarrow> int \<Rightarrow> int option list" where
  \<comment> \<open>one triangle in the buffer: the marker 3 and three point indices\<close>
  "tri a b c = [Some 3, Some a, Some b, Some c]"

definition quad_tris :: "int \<Rightarrow> int \<Rightarrow> int \<Rightarrow> int \<Rightarrow> int option list" where
  \<comment> \<open>a four-point face split along the diagonal between its first and third point\<close>
  "quad_tris a b c d = tri a b c @ tri a c d"

definition known_types :: "int set" where
  "known_types = {VTK_TRIANGLE, VTK_QUAD, VTK_TETRA, VTK_HEXAHEDRON, VTK_WEDGE, VTK_PYRAMID}"

definition fan_tris :: "int list \<Rightarrow> int option list" where
  \<comment> \<open>the fan of a window \<open>w\<close> of \<open>n\<close> points: triangles \<open>(0, j + 1, j + 2)\<close> for \<open>j\<close> in \<open>0..n-3\<close>\<close>
  "fan_tris w = concat (map (\<lambda>j. tri (w ! 0) (w ! (j + 1)) (w ! (j + 2))) [0 ..< length w - 2])"




definition triple :: "real list \<Rightarrow> nat \<Rightarrow> real list" where
  \<comment> \<open>the three coordinates of point \<open>i\<close> in a point buffer\<close>
  "triple data i = [data ! (3 * i), data ! (3 * i + 1), data ! (3 * i + 2)]"

definition passing :: "real list \<Rightarrow> real \<Rightarrow> nat list" where
  \<comment> \<open>the indices of the points whose scalar value is above the threshold, in order\<close>
  "passing s t = filter (\<lambda>i. s ! i > t) [0 ..< length s]"

definition offset_before :: "int list \<Rightarrow> nat \<Rightarrow> int option" where
  \<comment> \<open>the value of \<open>previousOffset\<close> when the loop reaches cell \<open>i\<close>\<close>
  "offset_before offsetsArray i = (if i = 0 then Some 0 else js_index offsetsArray (i - 1))"

definition window :: "int list \<Rightarrow> int list \<Rightarrow> nat \<Rightarrow> int list" where
  \<comment> \<open>the point-index window of cell \<open>i\<close>\<close>
  "window connectivityArray offsetsArray i =
     js_slice connectivityArray (offset_before offsetsArray i) (js_index offsetsArray i)"

definition cell_triangles :: "int list \<Rightarrow> int list \<Rightarrow> int list \<Rightarrow> nat \<Rightarrow> int option list" where
  \<comment> \<open>what cell \<open>i\<close> of a block contributes to the buffer\<close>
  "cell_triangles connectivityArray offsetsArray typesArray i =
     push_cell (typesArray ! i)
       (js_minus (js_index offsetsArray i) (offset_before offsetsArray i))
       (window connectivityArray offsetsArray i)"

definition triangles_before :: "int list \<Rightarrow> int list \<Rightarrow> int list \<Rightarrow> nat \<Rightarrow> int option list" where
  \<comment> \<open>the contributions of the cells before cell \<open>i\<close>, in order\<close>
  "triangles_before connectivityArray offsetsArray typesArray i =
     concat (map (cell_triangles connectivityArray offsetsArray typesArray) [0 ..< i])"

definition triangles_after :: "int list \<Rightarrow> int list \<Rightarrow> int list \<Rightarrow> nat \<Rightarrow> int option list" where
  \<comment> \<open>the contributions of the cells after cell \<open>i\<close>, in order\<close>
  "triangles_after connectivityArray offsetsArray typesArray i =
     concat (map (cell_triangles connectivityArray offsetsArray typesArray)
               [Suc i ..< length typesArray])"

definition offset_fan :: "int list \<Rightarrow> int \<Rightarrow> int option list" where
  \<comment> \<open>\<open>n - 2\<close> fan triangles over a window \<open>w\<close>, where \<open>n\<close> need not be the length of \<open>w\<close>:
      an index beyond the window reads \<open>undefined\<close>\<close>
  "offset_fan w n =
     concat (map (\<lambda>j. [Some 3, js_index w 0, js_index w (j + 1), js_index w (j + 2)])
               [0 ..< nat (n - 2)])"

definition passes :: "real list \<Rightarrow> real \<Rightarrow> nat \<Rightarrow> bool" where
  \<comment> \<open>point \<open>i\<close> has a scalar value, and the value is above the threshold\<close>
  "passes s t i \<longleftrightarrow> i < length s \<and> t < s ! i"

subsection \<open>Sample inputs\<close>

definition doc_without_types :: vtu_doc where
  \<comment> \<open>one triangle and a scalar array, but no \<open>types\<close> array\<close>
  "doc_without_types = \<lparr>points_text = Some ''0 0 0 1 0 0 0 1 0'',
     connectivity_text = Some ''0 1 2'', offsets_text = Some ''3'', types_text = None,
     point_data = [(Some ''T'', ''1 2 3'')]\<rparr>"

definition doc_empty_scalars :: vtu_doc where
  \<comment> \<open>one triangle and a scalar array \<open>T\<close> that lists no value\<close>
  "doc_empty_scalars = \<lparr>points_text = Some ''0 0 0 1 0 0 0 1 0'',
     connectivity_text = Some ''0 1 2'', offsets_text = Some ''3'', types_text = Some ''5'',
     point_data = [(Some ''T'', [])]\<rparr>"

definition sample_polyData :: polyData where
  \<comment> \<open>three points, one triangle, the scalar values 1, 5 and 3\<close>
  "sample_polyData = \<lparr>getPoints = [0, 0, 0, 1, 0, 0, 0, 1, 0], getPolys = [3, 0, 1, 2],
     getScalars = Some \<lparr>getName = Some ''T'', getData = [1, 5, 3]\<rparr>\<rparr>"

definition sample_mapper :: mapper where
  "sample_mapper = newMapper\<lparr>getInputData := Some sample_polyData\<rparr>"

definition doc_three_cells :: vtu_doc where
  \<comment> \<open>a hexahedron, a wedge and a pyramid\<close>
  "doc_three_cells = \<lparr>points_text = None,
     connectivity_text = Some ''0 1 2 3 4 5 6 7 2 3 6 7 8 9 0 1 2 3 10'',
     offsets_text = Some ''8 14 19'', types_text = Some ''12 13 14'', point_data = []\<rparr>"

definition doc_offset_beyond :: vtu_doc where
  \<comment> \<open>one cell of type 7 whose offset 5 lies beyond the three connectivity entries\<close>
  "doc_offset_beyond = \<lparr>points_text = None, connectivity_text = Some ''0 1 2'',
     offsets_text = Some ''5'', types_text = Some ''7'', point_data = []\<rparr>"

definition doc_two_points :: vtu_doc where
  \<comment> \<open>one cell of type 7 with two points\<close>
  "doc_two_points = \<lparr>points_text = None, connectivity_text = Some ''0 1'',
     offsets_text = Some ''2'', types_text = Some ''7'', point_data = []\<rparr>"

definition polyData_one_scalar :: polyData where
  \<comment> \<open>the poly data assembled from \<open>doc_empty_scalars\<close>: three points, one scalar value\<close>
  "polyData_one_scalar = \<lparr>getPoints = [0, 0, 0, 1, 0, 0, 0, 1, 0], getPolys = [3, 0, 1, 2],
     getScalars = Some \<lparr>getName = Some ''T'', getData = [0]\<rparr>\<rparr>"

definition mapper_one_scalar :: mapper where
  "mapper_one_scalar =
     applyColorMap (newMapper\<lparr>getInputData := Some polyData_one_scalar\<rparr>) (Finite 0, Finite 0)"

section \<open>Properties\<close>

subsection \<open>Tessellation of one cell\<close>

lemmas VTK_defs = VTK_TRIANGLE_def VTK_QUAD_def VTK_TETRA_def VTK_HEXAHEDRON_def
  VTK_WEDGE_def VTK_PYRAMID_def

lemma cell_step_push:
  "cell_step connectivityArray offsetsArray typesArray i (cells, previousOffset) =
     (cells @ push_cell (typesArray ! i) (js_minus (js_index offsetsArray i) previousOffset)
                (js_slice connectivityArray previousOffset (js_index offsetsArray i)),
      js_index offsetsArray i)"
  by (simp add: cell_step_def Let_def)



lemma push_cell_hexahedron:
  "push_cell VTK_HEXAHEDRON n [p0, p1, p2, p3, p4, p5, p6, p7] =
     quad_tris p0 p1 p2 p3 @ quad_tris p4 p5 p6 p7 @ quad_tris p0 p1 p5 p4 @
     quad_tris p2 p3 p7 p6 @ quad_tris p0 p3 p7 p4 @ quad_tris p1 p2 p6 p5"
  by (simp add: push_cell_def VTK_defs js_index_def tri_def quad_tris_def faces_def
      push_quad_face_def)

lemma push_cell_wedge:
  "push_cell VTK_WEDGE n [p0, p1, p2, p3, p4, p5] =
     tri p0 p1 p2 @ tri p3 p4 p5 @
     quad_tris p0 p1 p4 p3 @ quad_tris p1 p2 p5 p4 @ quad_tris p0 p2 p5 p3"
  by (simp add: push_cell_def VTK_defs js_index_def tri_def quad_tris_def wedgeFaces_def
      push_face_def push_quad_face_def)

lemma push_cell_pyramid:
  "push_cell VTK_PYRAMID n [p0, p1, p2, p3, p4] =
     quad_tris p0 p1 p2 p3 @ tri p0 p1 p4 @ tri p1 p2 p4 @ tri p2 p3 p4 @ tri p3 p0 p4"
  by (simp add: push_cell_def VTK_defs js_index_def tri_def quad_tris_def pyramidFaces_def
      push_face_def push_quad_face_def)

lemma length_push_cell_fixed:
  "length (push_cell VTK_HEXAHEDRON n w) = 4 * 12"
  "length (push_cell VTK_WEDGE n w) = 4 * 8"
  "length (push_cell VTK_PYRAMID n w) = 4 * 6"
  by (simp_all add: push_cell_def VTK_defs faces_def wedgeFaces_def pyramidFaces_def
      push_face_def push_quad_face_def)

lemma js_slice_window:
  assumes "0 \<le> p" "p \<le> q" "q \<le> int (length xs)"
  shows "js_slice xs (Some p) (Some q) = take (nat (q - p)) (drop (nat p) xs)"
    and "length (js_slice xs (Some p) (Some q)) = nat (q - p)"
proof -
  have k: "relative_index (length xs) p = nat p" "relative_index (length xs) q = nat q"
    using assms by (simp_all add: relative_index_def)
  have d: "nat q - nat p = nat (q - p)"
    using assms by (simp add: nat_diff_distrib)
  show "js_slice xs (Some p) (Some q) = take (nat (q - p)) (drop (nat p) xs)"
    by (simp add: js_slice_def k d)
  then show "length (js_slice xs (Some p) (Some q)) = nat (q - p)"
    using assms by simp
qed

lemma push_fan_eq:
  assumes "int (length w) = n" "3 \<le> n"
  shows "push_fan w n = fan_tris w"
proof -
  have n: "nat (n - 2) = length w - 2"
    using assms by auto
  have "\<And>j. j \<in> set [0 ..< length w - 2] \<Longrightarrow>
      [Some 3, js_index w 0, js_index w (j + 1), js_index w (j + 2)] =
      tri (w ! 0) (w ! (j + 1)) (w ! (j + 2))"
    using assms by (auto simp add: js_index_def tri_def)
  then show ?thesis
    unfolding push_fan_def fan_tris_def n by (metis (no_types, lifting) map_cong)
qed

lemma length_fan_tris: "length (fan_tris w) = 4 * (length w - 2)"
  by (simp add: fan_tris_def tri_def length_concat comp_def sum_list_triv)

lemmas parse_defs = parse_numbers_def js_trim_def js_split_ws_def is_space_def js_Number_def
  decimal_def digit_value_def decimal_real_def





lemma fold_cell_step:
  "fold (cell_step c offs t) [0 ..< n] ([], Some 0) =
     (concat (map (cell_triangles c offs t) [0 ..< n]), offset_before offs n)"
proof (induction n)
  case 0
  show ?case by (simp add: offset_before_def)
next
  case (Suc n)
  then show ?case
    by (simp add: cell_step_push cell_triangles_def window_def offset_before_def)
qed

lemma tessellate_cells:
  "tessellate c offs t = concat (map (cell_triangles c offs t) [0 ..< length t])"
  by (simp add: tessellate_def fold_cell_step)

lemma upt_split_at: "i < n \<Longrightarrow> [0 ..< n] = [0 ..< i] @ i # [Suc i ..< n]"
  using upt_add_eq_append [of 0 i "n - i"] by (simp add: upt_conv_Cons)

lemma tessellate_cell:
  assumes "i < length t"
  shows "tessellate c offs t =
     triangles_before c offs t i @ cell_triangles c offs t i @ triangles_after c offs t i"
  unfolding tessellate_cells triangles_before_def triangles_after_def
  by (simp add: upt_split_at [OF assms])

lemma extractCells_cell:
  assumes "connectivity_text xmlDoc = Some connectivityText"
    and "offsets_text xmlDoc = Some offsetsText" and "types_text xmlDoc = Some typesText"
    and "parse_numbers num connectivityText = c" and "parse_numbers num offsetsText = offs"
    and "parse_numbers num typesText = t" and "i < length t"
  shows "extractCells num xmlDoc =
     Inr (map to_uint32
       (triangles_before c offs t i @ cell_triangles c offs t i @ triangles_after c offs t i))"
  using assms(1-6) tessellate_cell [OF assms(7), of c offs]
  by (simp add: extractCells_def)

lemma cell_triangles_type:
  "t ! i = ty \<Longrightarrow> window c offs i = w \<Longrightarrow>
   cell_triangles c offs t i =
     push_cell ty (js_minus (js_index offs i) (offset_before offs i)) w"
  by (simp add: cell_triangles_def)

text \<open>
  C3. In the buffer that \<open>extractCells\<close> returns, between the triangles of the cells
  before and after it, a hexahedron cell (type 12) with an eight-point window contributes
  exactly 12 triangles: its six four-point faces, by the fixed face table, each split
  along the diagonal between the first and third point of the face. A wedge cell (type
  13) with a six-point window contributes exactly 8 triangles: the two triangular end
  faces as they are, then the three four-point side faces split the same way. A pyramid
  cell (type 14) with a five-point window contributes exactly 6 triangles: the four-point
  base split the same way, then the four triangular sides as they are. The numbers of
  buffer elements (four per triangle) hold for every window.
\<close>

theorem hexahedron_wedge_pyramid_cells:
  assumes "connectivity_text xmlDoc = Some connectivityText"
    and "offsets_text xmlDoc = Some offsetsText" and "types_text xmlDoc = Some typesText"
    and "parse_numbers num connectivityText = connectivityArray"
    and "parse_numbers num offsetsText = offsetsArray"
    and "parse_numbers num typesText = typesArray"
  shows
  "(i < length typesArray \<and> typesArray ! i = VTK_HEXAHEDRON \<and>
    window connectivityArray offsetsArray i = [xa, xb, xc, xd, xe, xf, xg, xh] \<longrightarrow>
    extractCells num xmlDoc = Inr (map to_uint32
      (triangles_before connectivityArray offsetsArray typesArray i @
       (quad_tris xa xb xc xd @ quad_tris xe xf xg xh @ quad_tris xa xb xf xe @
        quad_tris xc xd xh xg @ quad_tris xa xd xh xe @ quad_tris xb xc xg xf) @
       triangles_after connectivityArray offsetsArray typesArray i))) \<and>
   (j < length typesArray \<and> typesArray ! j = VTK_WEDGE \<and>
    window connectivityArray offsetsArray j = [ua, ub, uc, ud, ue, uf] \<longrightarrow>
    extractCells num xmlDoc = Inr (map to_uint32
      (triangles_before connectivityArray offsetsArray typesArray j @
       (tri ua ub uc @ tri ud ue uf @
        quad_tris ua ub ue ud @ quad_tris ub uc uf ue @ quad_tris ua uc uf ud) @
       triangles_after connectivityArray offsetsArray typesArray j))) \<and>
   (k < length typesArray \<and> typesArray ! k = VTK_PYRAMID \<and>
    window connectivityArray offsetsArray k = [ya, yb, yc, yd, ye] \<longrightarrow>
    extractCells num xmlDoc = Inr (map to_uint32
      (triangles_before connectivityArray offsetsArray typesArray k @
       (quad_tris ya yb yc yd @ tri ya yb ye @ tri yb yc ye @ tri yc yd ye @ tri yd ya ye) @
       triangles_after connectivityArray offsetsArray typesArray k))) \<and>
   length (quad_tris xa xb xc xd @ quad_tris xe xf xg xh @ quad_tris xa xb xf xe @
           quad_tris xc xd xh xg @ quad_tris xa xd xh xe @ quad_tris xb xc xg xf) = 4 * 12 \<and>
   length (tri ua ub uc @ tri ud ue uf @
           quad_tris ua ub ue ud @ quad_tris ub uc uf ue @ quad_tris ua uc uf ud) = 4 * 8 \<and>
   length (quad_tris ya yb yc yd @ tri ya yb ye @ tri yb yc ye @ tri yc yd ye @ tri yd ya ye) =
     4 * 6 \<and>
   length (push_cell VTK_HEXAHEDRON numPoints cellIndices) = 4 * 12 \<and>
   length (push_cell VTK_WEDGE numPoints cellIndices) = 4 * 8 \<and>
   length (push_cell VTK_PYRAMID numPoints cellIndices) = 4 * 6"
proof (intro conjI impI)
  assume a: "i < length typesArray \<and> typesArray ! i = VTK_HEXAHEDRON \<and>
    window connectivityArray offsetsArray i = [xa, xb, xc, xd, xe, xf, xg, xh]"
  then have "cell_triangles connectivityArray offsetsArray typesArray i =
      quad_tris xa xb xc xd @ quad_tris xe xf xg xh @ quad_tris xa xb xf xe @
      quad_tris xc xd xh xg @ quad_tris xa xd xh xe @ quad_tris xb xc xg xf"
    by (simp add: cell_triangles_type push_cell_hexahedron)
  with extractCells_cell [OF assms, of i] a
  show "extractCells num xmlDoc = Inr (map to_uint32
      (triangles_before connectivityArray offsetsArray typesArray i @
       (quad_tris xa xb xc xd @ quad_tris xe xf xg xh @ quad_tris xa xb xf xe @
        quad_tris xc xd xh xg @ quad_tris xa xd xh xe @ quad_tris xb xc xg xf) @
       triangles_after connectivityArray offsetsArray typesArray i))"
    by simp
next
  assume a: "j < length typesArray \<and> typesArray ! j = VTK_WEDGE \<and>
    window connectivityArray offsetsArray j = [ua, ub, uc, ud, ue, uf]"
  then have "cell_triangles connectivityArray offsetsArray typesArray j =
      tri ua ub uc @ tri ud ue uf @
      quad_tris ua ub ue ud @ quad_tris ub uc uf ue @ quad_tris ua uc uf ud"
    by (simp add: cell_triangles_type push_cell_wedge)
  with extractCells_cell [OF assms, of j] a
  show "extractCells num xmlDoc = Inr (map to_uint32
      (triangles_before connectivityArray offsetsArray typesArray j @
       (tri ua ub uc @ tri ud ue uf @
        quad_tris ua ub ue ud @ quad_tris ub uc uf ue @ quad_tris ua uc uf ud) @
       triangles_after connectivityArray offsetsArray typesArray j))"
    by simp
next
  assume a: "k < length typesArray \<and> typesArray ! k = VTK_PYRAMID \<and>
    window connectivityArray offsetsArray k = [ya, yb, yc, yd, ye]"
  then have "cell_triangles connectivityArray offsetsArray typesArray k =
      quad_tris ya yb yc yd @ tri ya yb ye @ tri yb yc ye @ tri yc yd ye @ tri yd ya ye"
    by (simp add: cell_triangles_type push_cell_pyramid)
  with extractCells_cell [OF assms, of k] a
  show "extractCells num xmlDoc = Inr (map to_uint32
      (triangles_before connectivityArray offsetsArray typesArray k @
       (quad_tris ya yb yc yd @ tri ya yb ye @ tri yb yc ye @ tri yc yd ye @ tri yd ya ye) @
       triangles_after connectivityArray offsetsArray typesArray k))"
    by simp
qed (simp_all add: length_push_cell_fixed tri_def quad_tris_def)

theorem hexahedron_wedge_pyramid_cells_witness:
  "connectivity_text doc_three_cells = Some ''0 1 2 3 4 5 6 7 2 3 6 7 8 9 0 1 2 3 10'' \<and>
   offsets_text doc_three_cells = Some ''8 14 19'' \<and>
   types_text doc_three_cells = Some ''12 13 14'' \<and>
   window [0, 1, 2, 3, 4, 5, 6, 7, 2, 3, 6, 7, 8, 9, 0, 1, 2, 3, 10] [8, 14, 19] 0 =
     [0, 1, 2, 3, 4, 5, 6, 7] \<and>
   window [0, 1, 2, 3, 4, 5, 6, 7, 2, 3, 6, 7, 8, 9, 0, 1, 2, 3, 10] [8, 14, 19] 1 =
     [2, 3, 6, 7, 8, 9] \<and>
   window [0, 1, 2, 3, 4, 5, 6, 7, 2, 3, 6, 7, 8, 9, 0, 1, 2, 3, 10] [8, 14, 19] 2 =
     [0, 1, 2, 3, 10] \<and>
   extractCells decimal doc_three_cells =
     Inr [3, 0, 1, 2, 3, 0, 2, 3, 3, 4, 5, 6, 3, 4, 6, 7, 3, 0, 1, 5, 3, 0, 5, 4,
          3, 2, 3, 7, 3, 2, 7, 6, 3, 0, 3, 7, 3, 0, 7, 4, 3, 1, 2, 6, 3, 1, 6, 5,
          3, 2, 3, 6, 3, 7, 8, 9, 3, 2, 3, 8, 3, 2, 8, 7, 3, 3, 6, 9, 3, 3, 9, 8,
          3, 2, 6, 9, 3, 2, 9, 7,
          3, 0, 1, 2, 3, 0, 2, 3, 3, 0, 1, 10, 3, 1, 2, 10, 3, 2, 3, 10, 3, 3, 0, 10]"
proof -
  let ?c = "[0, 1, 2, 3, 4, 5, 6, 7, 2, 3, 6, 7, 8, 9, 0, 1, 2, 3, 10::int]"
  let ?o = "[8, 14, 19::int]"
  let ?t = "[12, 13, 14::int]"
  let ?hex = "quad_tris 0 1 2 3 @ quad_tris 4 5 6 7 @ quad_tris 0 1 5 4 @
      quad_tris 2 3 7 6 @ quad_tris 0 3 7 4 @ quad_tris 1 2 6 5"
  let ?wedge = "tri 2 3 6 @ tri 7 8 9 @ quad_tris 2 3 8 7 @ quad_tris 3 6 9 8 @
      quad_tris 2 6 9 7"
  let ?pyramid = "quad_tris 0 1 2 3 @ tri 0 1 10 @ tri 1 2 10 @ tri 2 3 10 @ tri 3 0 10"
  have d: "connectivity_text doc_three_cells = Some ''0 1 2 3 4 5 6 7 2 3 6 7 8 9 0 1 2 3 10''"
    "offsets_text doc_three_cells = Some ''8 14 19''"
    "types_text doc_three_cells = Some ''12 13 14''"
    by (simp_all add: doc_three_cells_def)
  have p: "parse_numbers decimal ''0 1 2 3 4 5 6 7 2 3 6 7 8 9 0 1 2 3 10'' = ?c"
    "parse_numbers decimal ''8 14 19'' = ?o" "parse_numbers decimal ''12 13 14'' = ?t"
    by (simp_all add: parse_defs)
  have t: "?t ! 0 = VTK_HEXAHEDRON" "?t ! 1 = VTK_WEDGE" "?t ! 2 = VTK_PYRAMID"
    by (simp_all add: VTK_defs)
  have w: "window ?c ?o 0 = [0, 1, 2, 3, 4, 5, 6, 7]" "window ?c ?o 1 = [2, 3, 6, 7, 8, 9]"
    "window ?c ?o 2 = [0, 1, 2, 3, 10]"
    by (simp_all add: window_def offset_before_def js_index_def js_slice_def relative_index_def)
  have ct0: "cell_triangles ?c ?o ?t 0 = ?hex"
    unfolding cell_triangles_type [OF t(1) w(1)] by (rule push_cell_hexahedron)
  have ct1: "cell_triangles ?c ?o ?t 1 = ?wedge"
    unfolding cell_triangles_type [OF t(2) w(2)] by (rule push_cell_wedge)
  have ct2: "cell_triangles ?c ?o ?t 2 = ?pyramid"
    unfolding cell_triangles_type [OF t(3) w(3)] by (rule push_cell_pyramid)
  have u: "[0 ..< 0] = ([]::nat list)" "[0 ..< 1] = [0::nat]" "[0 ..< 2] = [0, 1::nat]"
    "[Suc 0 ..< length ?t] = [1, 2]" "[Suc 1 ..< length ?t] = [2]" "[Suc 2 ..< length ?t] = []"
    by (simp_all add: upt_rec)
  have b: "triangles_before ?c ?o ?t 0 = []" "triangles_before ?c ?o ?t 1 = ?hex"
    "triangles_before ?c ?o ?t 2 = ?hex @ ?wedge"
    unfolding triangles_before_def u by (simp_all only: list.map concat.simps ct0 ct1 append_Nil2)
  have a: "triangles_after ?c ?o ?t 0 = ?wedge @ ?pyramid" "triangles_after ?c ?o ?t 1 = ?pyramid"
    "triangles_after ?c ?o ?t 2 = []"
    unfolding triangles_after_def u by (simp_all only: list.map concat.simps ct1 ct2 append_Nil2)
  note inst = hexahedron_wedge_pyramid_cells [OF d p, where i = 0 and j = 1 and k = 2
      and xa = 0 and xb = 1 and xc = 2 and xd = 3 and xe = 4 and xf = 5 and xg = 6 and xh = 7
      and ua = 2 and ub = 3 and uc = 6 and ud = 7 and ue = 8 and uf = 9
      and ya = 0 and yb = 1 and yc = 2 and yd = 3 and ye = 10]
  have e1: "extractCells decimal doc_three_cells =
      Inr (map to_uint32 ([] @ ?hex @ ?wedge @ ?pyramid))"
    using inst t(1) w(1) b(1) a(1) by simp
  have e2: "extractCells decimal doc_three_cells =
      Inr (map to_uint32 (?hex @ ?wedge @ ?pyramid))"
    using inst t(2) w(2) b(2) a(2) by simp
  have e3: "extractCells decimal doc_three_cells =
      Inr (map to_uint32 ((?hex @ ?wedge) @ ?pyramid @ []))"
    using inst t(3) w(3) b(3) a(3) by simp
  have v: "map to_uint32 (?hex @ ?wedge @ ?pyramid) =
      [3, 0, 1, 2, 3, 0, 2, 3, 3, 4, 5, 6, 3, 4, 6, 7, 3, 0, 1, 5, 3, 0, 5, 4,
       3, 2, 3, 7, 3, 2, 7, 6, 3, 0, 3, 7, 3, 0, 7, 4, 3, 1, 2, 6, 3, 1, 6, 5,
       3, 2, 3, 6, 3, 7, 8, 9, 3, 2, 3, 8, 3, 2, 8, 7, 3, 3, 6, 9, 3, 3, 9, 8,
       3, 2, 6, 9, 3, 2, 9, 7,
       3, 0, 1, 2, 3, 0, 2, 3, 3, 0, 1, 10, 3, 1, 2, 10, 3, 2, 3, 10, 3, 3, 0, 10]"
    by (simp add: tri_def quad_tris_def to_uint32_def)
  from e1 e2 e3 have "extractCells decimal doc_three_cells =
      Inr (map to_uint32 (?hex @ ?wedge @ ?pyramid))"
    by simp
  with d w show ?thesis
    unfolding v by simp
qed

lemma length_offset_fan: "length (offset_fan w n) = 4 * nat (n - 2)"
  by (simp add: offset_fan_def length_concat comp_def sum_list_triv)

lemma push_cell_other:
  "ty \<notin> known_types \<Longrightarrow>
   push_cell ty numPoints w =
     (case numPoints of None \<Rightarrow> [] | Some n \<Rightarrow> if 3 \<le> n then offset_fan w n else [])"
  by (cases numPoints) (simp_all add: push_cell_def known_types_def push_fan_def offset_fan_def)

text \<open>
  C4, as the code has it. A cell whose type is none of 5, 9, 10, 12, 13, 14 takes the
  number of its fan triangles from the offsets, not from its window \<open>w\<close>: with
  \<open>numPoints\<close> the cell's offset minus the previous offset, it adds exactly the
  \<open>numPoints - 2\<close> triangles \<open>(w[0], w[j+1], w[j+2])\<close> for \<open>j = 0..numPoints-3\<close>, in that
  order, when \<open>numPoints \<ge> 3\<close>, where an index beyond the window reads \<open>undefined\<close>; it
  adds nothing when \<open>numPoints < 3\<close> or when an offset is missing. When the offsets lie
  within the connectivity array (\<open>0 \<le> p \<le> q \<le> length\<close>, where \<open>p\<close> is the previous offset
  and \<open>q\<close> the cell's own), \<open>numPoints\<close> is the number \<open>n\<close> of points of the window: the
  cell adds exactly the \<open>n - 2\<close> fan triangles if \<open>n \<ge> 3\<close> and nothing if \<open>n < 3\<close>. In
  the buffer that \<open>extractCells\<close> returns, the triangles of the cell stand between those
  of the cells before and after it. Neither the step nor \<open>extractCells\<close> on a document
  with its three cell arrays has a failing branch.
\<close>

theorem other_cell_fan:
  assumes "i < length typesArray" and "typesArray ! i \<notin> known_types"
    and "w = js_slice connectivityArray previousOffset (js_index offsetsArray i)"
  shows "(js_minus (js_index offsetsArray i) previousOffset = Some n \<and> 3 \<le> n \<longrightarrow>
            cell_step connectivityArray offsetsArray typesArray i (cells, previousOffset) =
              (cells @ offset_fan w n, js_index offsetsArray i) \<and>
            length (offset_fan w n) = 4 * nat (n - 2)) \<and>
         (js_minus (js_index offsetsArray i) previousOffset = None \<or>
          (js_minus (js_index offsetsArray i) previousOffset = Some n' \<and> n' < 3) \<longrightarrow>
            cell_step connectivityArray offsetsArray typesArray i (cells, previousOffset) =
              (cells, js_index offsetsArray i)) \<and>
         (previousOffset = Some p \<and> js_index offsetsArray i = Some q \<and>
          0 \<le> p \<and> p \<le> q \<and> q \<le> int (length connectivityArray) \<longrightarrow>
            int (length w) = q - p \<and>
            cell_step connectivityArray offsetsArray typesArray i (cells, previousOffset) =
              (cells @ (if 3 \<le> length w then fan_tris w else []), Some q) \<and>
            length (fan_tris w) = 4 * (length w - 2)) \<and>
         (connectivity_text xmlDoc = Some connectivityText \<and>
          offsets_text xmlDoc = Some offsetsText \<and> types_text xmlDoc = Some typesText \<and>
          parse_numbers num connectivityText = connectivityArray \<and>
          parse_numbers num offsetsText = offsetsArray \<and>
          parse_numbers num typesText = typesArray \<and>
          previousOffset = offset_before offsetsArray i \<longrightarrow>
            extractCells num xmlDoc = Inr (map to_uint32
              (triangles_before connectivityArray offsetsArray typesArray i @
               (case js_minus (js_index offsetsArray i) previousOffset of
                  None \<Rightarrow> []
                | Some k \<Rightarrow> if 3 \<le> k then offset_fan w k else []) @
               triangles_after connectivityArray offsetsArray typesArray i)))"
proof (intro conjI impI)
  note pc = push_cell_other [OF assms(2)]
  {
    assume a: "connectivity_text xmlDoc = Some connectivityText \<and>
      offsets_text xmlDoc = Some offsetsText \<and> types_text xmlDoc = Some typesText \<and>
      parse_numbers num connectivityText = connectivityArray \<and>
      parse_numbers num offsetsText = offsetsArray \<and>
      parse_numbers num typesText = typesArray \<and>
      previousOffset = offset_before offsetsArray i"
    then have e: "extractCells num xmlDoc = Inr (map to_uint32
        (triangles_before connectivityArray offsetsArray typesArray i @
         cell_triangles connectivityArray offsetsArray typesArray i @
         triangles_after connectivityArray offsetsArray typesArray i))"
      using extractCells_cell [of xmlDoc connectivityText offsetsText typesText num
          connectivityArray offsetsArray typesArray i] assms(1)
      by blast
    have "cell_triangles connectivityArray offsetsArray typesArray i =
        (case js_minus (js_index offsetsArray i) previousOffset of
           None \<Rightarrow> []
         | Some k \<Rightarrow> if 3 \<le> k then offset_fan w k else [])"
      using a assms(3)
      by (cases "js_minus (js_index offsetsArray i) (offset_before offsetsArray i)")
        (simp_all add: cell_triangles_def window_def pc)
    with e show "extractCells num xmlDoc = Inr (map to_uint32
        (triangles_before connectivityArray offsetsArray typesArray i @
         (case js_minus (js_index offsetsArray i) previousOffset of
            None \<Rightarrow> []
          | Some k \<Rightarrow> if 3 \<le> k then offset_fan w k else []) @
         triangles_after connectivityArray offsetsArray typesArray i))"
      by simp
  }
  {
    assume a: "js_minus (js_index offsetsArray i) previousOffset = Some n \<and> 3 \<le> n"
    then show "cell_step connectivityArray offsetsArray typesArray i (cells, previousOffset) =
        (cells @ offset_fan w n, js_index offsetsArray i)"
      by (simp add: cell_step_push pc assms(3))
    show "length (offset_fan w n) = 4 * nat (n - 2)"
      by (rule length_offset_fan)
  }
  {
    assume "js_minus (js_index offsetsArray i) previousOffset = None \<or>
      (js_minus (js_index offsetsArray i) previousOffset = Some n' \<and> n' < 3)"
    then show "cell_step connectivityArray offsetsArray typesArray i (cells, previousOffset) =
        (cells, js_index offsetsArray i)"
      by (auto simp add: cell_step_push pc)
  }
  {
    assume a: "previousOffset = Some p \<and> js_index offsetsArray i = Some q \<and>
      0 \<le> p \<and> p \<le> q \<and> q \<le> int (length connectivityArray)"
    then have w: "w = js_slice connectivityArray (Some p) (Some q)"
      using assms(3) by simp
    show len: "int (length w) = q - p"
      using a w js_slice_window(2) [of p q connectivityArray] by simp
    have pc': "push_cell (typesArray ! i) (Some (q - p)) w =
        (if 3 \<le> q - p then push_fan w (q - p) else [])"
      using assms(2) by (simp add: push_cell_def known_types_def)
    show "cell_step connectivityArray offsetsArray typesArray i (cells, previousOffset) =
        (cells @ (if 3 \<le> length w then fan_tris w else []), Some q)"
    proof (cases "3 \<le> q - p")
      case True
      then have "3 \<le> length w" using len by linarith
      with True show ?thesis
        using push_fan_eq [OF len True] pc' a w by (simp add: cell_step_push js_minus_def)
    next
      case False
      then have "\<not> 3 \<le> length w" using len by linarith
      with False show ?thesis
        using pc' a w by (simp add: cell_step_push js_minus_def)
    qed
    show "length (fan_tris w) = 4 * (length w - 2)"
      by (rule length_fan_tris)
  }
qed

theorem other_cell_fan_witness:
  "[7::int] ! 0 \<notin> known_types \<and>
   js_slice [0, 1, 2::int] (Some 0) (js_index [5] 0) = [0, 1, 2] \<and>
   js_minus (js_index [5] 0) (Some 0) = Some 5 \<and>
   cell_step [0, 1, 2] [5] [7] 0 ([], Some 0) =
     ([Some 3, Some 0, Some 1, Some 2, Some 3, Some 0, Some 2, None,
       Some 3, Some 0, None, None], Some 5) \<and>
   extractCells decimal doc_offset_beyond = Inr [3, 0, 1, 2, 3, 0, 2, 0, 3, 0, 0, 0] \<and>
   js_minus (js_index [2] 0) (Some 0) = Some 2 \<and>
   cell_step [0, 1] [2] [7] 0 ([], Some 0) = ([], Some 2) \<and>
   extractCells decimal doc_two_points = Inr [] \<and>
   (5::int) \<le> int (length [0, 1, 2, 3, 4::int]) \<and>
   js_slice [0, 1, 2, 3, 4::int] (Some 0) (js_index [5] 0) = [0, 1, 2, 3, 4] \<and>
   cell_step [0, 1, 2, 3, 4] [5] [1] 0 ([], Some 0) =
     (tri 0 1 2 @ tri 0 2 3 @ tri 0 3 4, Some 5) \<and>
   extractCells decimal \<lparr>points_text = None, connectivity_text = Some ''0 1 2 3 4'',
      offsets_text = Some ''5'', types_text = Some ''1'', point_data = []\<rparr> =
     Inr [3, 0, 1, 2, 3, 0, 2, 3, 3, 0, 3, 4]"
proof -
  have l: "(0::nat) < length [7::int]" "(0::nat) < length [1::int]" by simp_all
  have k: "[7::int] ! 0 \<notin> known_types" "[1::int] ! 0 \<notin> known_types"
    by (simp_all add: known_types_def VTK_defs)
  have o5: "js_index [5::int] 0 = Some 5" and o2: "js_index [2::int] 0 = Some 2"
    by (simp_all add: js_index_def)
  have w3: "[0, 1, 2] = js_slice [0, 1, 2::int] (Some 0) (js_index [5] 0)"
    and w2: "[0, 1] = js_slice [0, 1::int] (Some 0) (js_index [2] 0)"
    and w5: "[0, 1, 2, 3, 4] = js_slice [0, 1, 2, 3, 4::int] (Some 0) (js_index [5] 0)"
    by (simp_all add: js_slice_def js_index_def relative_index_def)
  have n5: "js_minus (js_index [5] 0) (Some 0) = Some 5"
    and n2: "js_minus (js_index [2] 0) (Some 0) = Some 2"
    by (simp_all add: js_minus_def js_index_def)
  have f: "offset_fan [0, 1, 2] 5 =
      [Some 3, Some 0, Some 1, Some 2, Some 3, Some 0, Some 2, None, Some 3, Some 0, None, None]"
    by (simp add: offset_fan_def js_index_def upt_rec)
  have fan: "fan_tris [0, 1, 2, 3, 4] = tri 0 1 2 @ tri 0 2 3 @ tri 0 3 4"
    by (simp add: fan_tris_def upt_rec)
  have s1: "cell_step [0, 1, 2] [5] [7] 0 ([], Some 0) =
      ([Some 3, Some 0, Some 1, Some 2, Some 3, Some 0, Some 2, None,
        Some 3, Some 0, None, None], Some 5)"
    using other_cell_fan [OF l(1) k(1) w3, of 5 "[]"] n5 f o5 by simp
  have s2: "cell_step [0, 1] [2] [7] 0 ([], Some 0) = ([], Some 2)"
    using other_cell_fan [OF l(1) k(1) w2, where n' = 2 and cells = "[]"] n2 o2 by simp
  have s3: "cell_step [0, 1, 2, 3, 4] [5] [1] 0 ([], Some 0) =
      (tri 0 1 2 @ tri 0 2 3 @ tri 0 3 4, Some 5)"
    using other_cell_fan [OF l(2) k(2) w5, where p = 0 and q = 5 and cells = "[]"] o5 fan
    by simp
  have r1: "extractCells decimal doc_offset_beyond = Inr [3, 0, 1, 2, 3, 0, 2, 0, 3, 0, 0, 0]"
  proof -
    have d: "connectivity_text doc_offset_beyond = Some ''0 1 2''"
      "offsets_text doc_offset_beyond = Some ''5''" "types_text doc_offset_beyond = Some ''7''"
      by (simp_all add: doc_offset_beyond_def)
    have q: "parse_numbers decimal ''0 1 2'' = [0, 1, 2]" "parse_numbers decimal ''5'' = [5]"
      "parse_numbers decimal ''7'' = [7]"
      by (simp_all add: parse_defs)
    have ob: "Some 0 = offset_before [5] 0"
      by (simp add: offset_before_def)
    have ba: "triangles_before [0, 1, 2] [5] [7] 0 = []" "triangles_after [0, 1, 2] [5] [7] 0 = []"
      by (simp_all add: triangles_before_def triangles_after_def)
    from other_cell_fan [OF l(1) k(1) w3, where xmlDoc = doc_offset_beyond and num = decimal
        and connectivityText = "''0 1 2''" and offsetsText = "''5''" and typesText = "''7''"]
      d q ob
    have "extractCells decimal doc_offset_beyond = Inr (map to_uint32
        (triangles_before [0, 1, 2] [5] [7] 0 @
         (case js_minus (js_index [5] 0) (Some 0) of
            None \<Rightarrow> []
          | Some k \<Rightarrow> if 3 \<le> k then offset_fan [0, 1, 2] k else []) @
         triangles_after [0, 1, 2] [5] [7] 0))"
      by blast
    then show ?thesis
      by (simp add: ba n5 f to_uint32_def)
  qed
  have r2: "extractCells decimal doc_two_points = Inr []"
    by (simp add: extractCells_def doc_two_points_def parse_defs tessellate_def s2)
  have r3: "extractCells decimal \<lparr>points_text = None, connectivity_text = Some ''0 1 2 3 4'',
      offsets_text = Some ''5'', types_text = Some ''1'', point_data = []\<rparr> =
     Inr [3, 0, 1, 2, 3, 0, 2, 3, 3, 0, 3, 4]"
    by (simp add: extractCells_def parse_defs tessellate_def s3 tri_def to_uint32_def)
  have h: "(5::int) \<le> int (length [0, 1, 2, 3, 4::int])" by simp
  from k(1) w3 [symmetric] n5 s1 r1 n2 s2 r2 h w5 [symmetric] s3 r3 show ?thesis
    by blast
qed

text \<open>
  C4, as the specification states it, fails on the document \<open>doc_offset_beyond\<close>: its one
  cell has type 7 and a window of three points, for which the claim promises one fan
  triangle, and \<open>extractCells\<close> returns three triangles; the indices that lie beyond the
  window are stored as 0.
\<close>

theorem other_cell_fan_counterexample:
  "parse_numbers decimal ''7'' = [7] \<and> (7::int) \<notin> known_types \<and>
   window (parse_numbers decimal ''0 1 2'') (parse_numbers decimal ''5'') 0 = [0, 1, 2] \<and>
   extractCells decimal doc_offset_beyond = Inr [3, 0, 1, 2, 3, 0, 2, 0, 3, 0, 0, 0] \<and>
   extractCells decimal doc_offset_beyond \<noteq> Inr [3, 0, 1, 2]"
proof -
  have p: "parse_numbers decimal ''7'' = [7]" "parse_numbers decimal ''0 1 2'' = [0, 1, 2]"
    "parse_numbers decimal ''5'' = [5]"
    by (simp_all add: parse_defs)
  have k: "(7::int) \<notin> known_types"
    by (simp add: known_types_def VTK_defs)
  have w: "window [0, 1, 2] [5] 0 = [0, 1, 2]"
    by (simp add: window_def offset_before_def js_slice_def js_index_def relative_index_def)
  have t: "tessellate [0, 1, 2] [5] [7] =
      [Some 3, Some 0, Some 1, Some 2, Some 3, Some 0, Some 2, None, Some 3, Some 0, None, None]"
    by (simp add: tessellate_def cell_step_push push_cell_def VTK_defs push_fan_def
        js_slice_def js_minus_def js_index_def relative_index_def upt_rec)
  have r: "extractCells decimal doc_offset_beyond = Inr [3, 0, 1, 2, 3, 0, 2, 0, 3, 0, 0, 0]"
    by (simp add: extractCells_def doc_offset_beyond_def p t to_uint32_def)
  from p k w r show ?thesis by simp
qed

subsection \<open>Missing cell arrays\<close>

lemma isl_extractCells:
  "isl (extractCells num xmlDoc) \<longleftrightarrow>
     connectivity_text xmlDoc = None \<or> offsets_text xmlDoc = None \<or> types_text xmlDoc = None"
  by (cases "connectivity_text xmlDoc"; cases "offsets_text xmlDoc"; cases "types_text xmlDoc")
    (simp_all add: extractCells_def)

lemma extractCells_error:
  "isl (extractCells num xmlDoc) \<Longrightarrow>
     extractCells num xmlDoc = Inl (Error ''Missing required cell data in the VTU file.'')"
  by (cases "connectivity_text xmlDoc"; cases "offsets_text xmlDoc"; cases "types_text xmlDoc")
    (simp_all add: extractCells_def)

lemma addVTUToScene_error:
  assumes "isl (extractCells inum xmlDoc)"
  shows "isl (addVTUToScene inum rnum xmlDoc scalarField)"
proof -
  obtain e where e: "extractCells inum xmlDoc = Inl e"
    using assms by (cases "extractCells inum xmlDoc") simp_all
  show ?thesis
    by (cases "extractPoints rnum xmlDoc") (simp_all add: addVTUToScene_def e)
qed

text \<open>
  C5. \<open>extractCells\<close> throws exactly when at least one of the three cell arrays
  (connectivity, offsets, types) is absent from the document. What it throws is the one
  error for missing cell data; the result then carries no triangle buffer, and the
  assembly of the mesh fails as well.
\<close>

theorem extractCells_missing_iff:
  "(isl (extractCells inum xmlDoc) \<longleftrightarrow>
      connectivity_text xmlDoc = None \<or> offsets_text xmlDoc = None \<or> types_text xmlDoc = None) \<and>
   (isl (extractCells inum xmlDoc) \<longrightarrow>
      extractCells inum xmlDoc = Inl (Error ''Missing required cell data in the VTU file.'') \<and>
      isl (addVTUToScene inum rnum xmlDoc scalarField))"
proof (intro conjI impI)
  show "isl (extractCells inum xmlDoc) \<longleftrightarrow>
      connectivity_text xmlDoc = None \<or> offsets_text xmlDoc = None \<or> types_text xmlDoc = None"
    by (rule isl_extractCells)
next
  assume "isl (extractCells inum xmlDoc)"
  then show "extractCells inum xmlDoc =
      Inl (Error ''Missing required cell data in the VTU file.'')"
    by (rule extractCells_error)
next
  assume "isl (extractCells inum xmlDoc)"
  then show "isl (addVTUToScene inum rnum xmlDoc scalarField)"
    by (rule addVTUToScene_error)
qed

theorem extractCells_missing_iff_witness:
  "types_text doc_without_types = None \<and>
   isl (extractCells decimal doc_without_types) \<and>
   extractCells decimal doc_without_types =
     Inl (Error ''Missing required cell data in the VTU file.'') \<and>
   isl (addVTUToScene decimal decimal_real doc_without_types None)"
proof -
  have h: "types_text doc_without_types = None"
    by (simp add: doc_without_types_def)
  from extractCells_missing_iff [of decimal doc_without_types decimal_real None] h
  show ?thesis by simp
qed

subsection \<open>Reading numbers; the threshold filter\<close>

lemma split_from_nonempty: "split_from cur in_sep s \<noteq> []"
  by (induction s arbitrary: cur in_sep) auto

lemma parse_numbers_nonempty: "parse_numbers num text \<noteq> []"
  by (simp add: parse_numbers_def js_split_ws_def split_from_nonempty)

lemma parse_numbers_blank: "js_trim text = [] \<Longrightarrow> parse_numbers num text = [0]"
  by (simp add: parse_numbers_def js_split_ws_def js_Number_def)

lemma truthy_mask:
  "truthy (js_index (threshold_mask s t) i) \<longleftrightarrow> i < length s \<and> t < s ! i"
  by (simp add: truthy_def js_index_def threshold_mask_def)

lemma triple_Cons3: "triple (x # y # z # rest) (Suc i) = triple rest i"
  by (simp add: triple_def)

lemma filter_triples:
  "length data = 3 * n \<Longrightarrow>
   map snd (filter (\<lambda>(index, _). P (index div 3)) (enumerate (3 * k) data)) =
   concat (map (triple data) (filter (\<lambda>i. P (k + i)) [0 ..< n]))"
proof (induction n arbitrary: data k)
  case 0
  then show ?case by simp
next
  case (Suc n)
  then obtain x y z rest where data: "data = x # y # z # rest" and rest: "length rest = 3 * n"
    by (cases data; cases "tl data"; cases "tl (tl data)") auto
  have d: "(3 * k) div 3 = k" "(Suc (3 * k)) div 3 = k" "(Suc (Suc (3 * k))) div 3 = k"
    by simp_all
  have e: "3 * Suc k = Suc (Suc (Suc (3 * k)))" by simp
  have IH': "map snd (filter (\<lambda>(index, _). P (index div 3))
        (enumerate (Suc (Suc (Suc (3 * k)))) rest)) =
      concat (map (triple rest) (filter (\<lambda>i. P (Suc k + i)) [0 ..< n]))"
    using Suc.IH [OF rest, of "Suc k"] unfolding e .
  have lhs: "map snd (filter (\<lambda>(index, _). P (index div 3)) (enumerate (3 * k) data)) =
      (if P k then [x, y, z] else []) @
      concat (map (triple rest) (filter (\<lambda>i. P (Suc k + i)) [0 ..< n]))"
    unfolding data enumerate_simps using d IH' by simp
  have up: "[0 ..< Suc n] = 0 # map Suc [0 ..< n]"
    by (simp add: upt_conv_Cons map_Suc_upt del: upt_Suc)
  have tail: "concat (map (triple data) (map Suc (filter (\<lambda>i. P (k + Suc i)) [0 ..< n]))) =
      concat (map (triple rest) (filter (\<lambda>i. P (Suc k + i)) [0 ..< n]))"
    by (simp add: data comp_def triple_Cons3)
  have head: "triple data 0 = [x, y, z]" by (simp add: data triple_def)
  have rhs: "concat (map (triple data) (filter (\<lambda>i. P (k + i)) [0 ..< Suc n])) =
      (if P k then [x, y, z] else []) @
      concat (map (triple data) (map Suc (filter (\<lambda>i. P (k + Suc i)) [0 ..< n])))"
    unfolding up by (simp add: filter_map comp_def head)
  show ?case unfolding lhs rhs tail ..
qed

lemma filter_points_mask:
  assumes "length data = 3 * length s"
  shows "filter_points (threshold_mask s t) data = concat (map (triple data) (passing s t))"
proof -
  have "filter_points (threshold_mask s t) data =
      map snd (filter (\<lambda>(index, _). index div 3 < length s \<and> t < s ! (index div 3))
        (enumerate (3 * 0) data))"
    by (simp add: filter_points_def truthy_mask)
  also have "\<dots> = concat (map (triple data)
      (filter (\<lambda>i. 0 + i < length s \<and> t < s ! (0 + i)) [0 ..< length s]))"
    using assms by (rule filter_triples [where P = "\<lambda>i. i < length s \<and> t < s ! i"])
  also have "\<dots> = concat (map (triple data) (passing s t))"
  proof -
    have "filter (\<lambda>i. 0 + i < length s \<and> t < s ! (0 + i)) [0 ..< length s] =
        filter (\<lambda>i. t < s ! i) [0 ..< length s]"
      by (rule filter_cong) simp_all
    then show ?thesis by (simp add: passing_def)
  qed
  finally show ?thesis .
qed

lemma filter_points_all:
  assumes "length data = 3 * length s" and "\<forall>v \<in> set s. t < v"
  shows "filter_points (threshold_mask s t) data = data"
proof -
  have "\<forall>p \<in> set (enumerate 0 data).
      (case p of (index, _) \<Rightarrow> truthy (js_index (threshold_mask s t) (index div 3)))"
  proof
    fix p assume "p \<in> set (enumerate 0 data)"
    then have "fst p < 3 * length s" using assms(1) by (simp add: in_set_enumerate_eq)
    then have "fst p div 3 < length s" by simp
    then show "case p of (index, _) \<Rightarrow> truthy (js_index (threshold_mask s t) (index div 3))"
      using assms(2) by (cases p) (simp add: truthy_mask)
  qed
  then show ?thesis by (simp add: filter_points_def)
qed

lemma filter_points_none:
  assumes "\<forall>v \<in> set s. v \<le> t"
  shows "filter_points (threshold_mask s t) data = []"
proof -
  have "\<forall>p \<in> set (enumerate 0 data).
      \<not> (case p of (index, _) \<Rightarrow> truthy (js_index (threshold_mask s t) (index div 3)))"
  proof
    fix p assume "p \<in> set (enumerate 0 data)"
    have "\<not> t < s ! i" if "i < length s" for i
      using assms that by (simp add: not_less)
    then show "\<not> (case p of (index, _) \<Rightarrow>
        truthy (js_index (threshold_mask s t) (index div 3)))"
      by (cases p) (simp add: truthy_mask)
  qed
  then show ?thesis by (simp add: filter_points_def)
qed

subsection \<open>The colour ramp\<close>


lemma applyColorMap_range: "getScalarRange (applyColorMap m r) = r"
  by (simp add: applyColorMap_def Let_def)







subsection \<open>The threshold filter on a mesh\<close>

lemma enableThreshold_run:
  assumes "getInputData m = Some pd" and "getScalars pd = Some arr"
  shows "enableThreshold m t =
     Inr (m\<lparr>getInputData := Some (newPolyData\<lparr>getPoints :=
            filter_points (threshold_mask (getData arr) t) (getPoints pd)\<rparr>)\<rparr>)"
  using assms by (simp add: enableThreshold_def Let_def)

lemma enableThreshold_cases:
  "enableThreshold m t = Inl TypeError \<or>
   (\<exists>points. enableThreshold m t =
      Inr (m\<lparr>getInputData := Some (newPolyData\<lparr>getPoints := points\<rparr>)\<rparr>))"
proof (cases "getInputData m")
  case None
  then show ?thesis by (simp add: enableThreshold_def)
next
  case (Some pd)
  show ?thesis
  proof (cases "getScalars pd")
    case None
    with Some show ?thesis by (simp add: enableThreshold_def)
  next
    case (Some arr)
    from enableThreshold_run [OF \<open>getInputData m = Some pd\<close> Some] show ?thesis by blast
  qed
qed

lemma enableThreshold_no_scalars:
  "getInputData m = Some pd \<Longrightarrow> getScalars pd = None \<Longrightarrow> enableThreshold m t = Inl TypeError"
  by (simp add: enableThreshold_def)

lemma enableThreshold_fails_again:
  assumes "enableThreshold m t1 = Inl e"
  shows "enableThreshold m t2 = Inl TypeError"
proof (cases "getInputData m")
  case None
  then show ?thesis by (simp add: enableThreshold_def)
next
  case (Some pd)
  show ?thesis
  proof (cases "getScalars pd")
    case None
    with Some show ?thesis by (simp add: enableThreshold_def)
  next
    case (Some arr)
    from enableThreshold_run [OF \<open>getInputData m = Some pd\<close> Some, of t1] assms
    show ?thesis by simp
  qed
qed

lemma filter_zip_swap:
  "length ks = length xs \<Longrightarrow>
   map snd (filter (\<lambda>(k, _). Q k) (zip ks xs)) =
   map fst (filter (\<lambda>p. Q (snd p)) (zip xs ks))"
  by (induction ks xs rule: list_induct2) simp_all

lemma filter_points_nths:
  "filter_points (threshold_mask s t) data = nths data {k. passes s t (k div 3)}"
proof -
  have "filter_points (threshold_mask s t) data =
      map snd (filter (\<lambda>(k, _). passes s t (k div 3)) (zip [0 ..< length data] data))"
    by (simp add: filter_points_def truthy_mask passes_def enumerate_eq_zip)
  also have "\<dots> = map fst (filter (\<lambda>p. passes s t (snd p div 3)) (zip data [0 ..< length data]))"
    by (rule filter_zip_swap) simp
  finally show ?thesis
    by (simp add: nths_def)
qed

text \<open>
  C7, as the code has it. Point \<open>i\<close> passes exactly when it has a scalar value
  (\<open>i < length s\<close>) and \<open>s[i] > t\<close>; a point without a scalar value never passes. The
  point buffer of the new mesh holds exactly the coordinates whose point passes, in their
  original order, and a threshold at or above every scalar value leaves it empty. When
  the mesh has one scalar value per point, the new point buffer is the concatenation of
  the coordinate triples of the passing points, and a threshold below every scalar value
  keeps the point buffer as it is.
\<close>

theorem threshold_filter_points:
  assumes "getInputData m = Some pd" and "getScalars pd = Some arr"
  shows "(\<forall>i. truthy (js_index (threshold_mask (getData arr) t) i) \<longleftrightarrow>
              passes (getData arr) t i) \<and>
         enableThreshold m t =
           Inr (m\<lparr>getInputData := Some (newPolyData\<lparr>getPoints :=
                  nths (getPoints pd) {k. passes (getData arr) t (k div 3)}\<rparr>)\<rparr>) \<and>
         ((\<forall>v \<in> set (getData arr). v \<le> t) \<longrightarrow>
            enableThreshold m t =
              Inr (m\<lparr>getInputData := Some (newPolyData\<lparr>getPoints := []\<rparr>)\<rparr>)) \<and>
         (length (getPoints pd) = 3 * length (getData arr) \<longrightarrow>
            enableThreshold m t =
              Inr (m\<lparr>getInputData := Some (newPolyData\<lparr>getPoints :=
                     concat (map (triple (getPoints pd)) (passing (getData arr) t))\<rparr>)\<rparr>) \<and>
            ((\<forall>v \<in> set (getData arr). t < v) \<longrightarrow>
               enableThreshold m t =
                 Inr (m\<lparr>getInputData := Some (newPolyData\<lparr>getPoints := getPoints pd\<rparr>)\<rparr>)))"
proof (intro conjI allI impI)
  fix i
  show "truthy (js_index (threshold_mask (getData arr) t) i) \<longleftrightarrow> passes (getData arr) t i"
    by (simp add: truthy_mask passes_def)
next
  show "enableThreshold m t =
      Inr (m\<lparr>getInputData := Some (newPolyData\<lparr>getPoints :=
             nths (getPoints pd) {k. passes (getData arr) t (k div 3)}\<rparr>)\<rparr>)"
    using enableThreshold_run [OF assms] by (simp add: filter_points_nths)
next
  assume "\<forall>v \<in> set (getData arr). v \<le> t"
  then show "enableThreshold m t =
      Inr (m\<lparr>getInputData := Some (newPolyData\<lparr>getPoints := []\<rparr>)\<rparr>)"
    using enableThreshold_run [OF assms] filter_points_none by simp
next
  assume len: "length (getPoints pd) = 3 * length (getData arr)"
  show "enableThreshold m t =
      Inr (m\<lparr>getInputData := Some (newPolyData\<lparr>getPoints :=
             concat (map (triple (getPoints pd)) (passing (getData arr) t))\<rparr>)\<rparr>)"
    using enableThreshold_run [OF assms] filter_points_mask [OF len] by simp
next
  assume len: "length (getPoints pd) = 3 * length (getData arr)"
    and "\<forall>v \<in> set (getData arr). t < v"
  then show "enableThreshold m t =
      Inr (m\<lparr>getInputData := Some (newPolyData\<lparr>getPoints := getPoints pd\<rparr>)\<rparr>)"
    using enableThreshold_run [OF assms] filter_points_all [OF len] by simp
qed

theorem threshold_filter_points_witness:
  "getInputData sample_mapper = Some sample_polyData \<and>
   getScalars sample_polyData = Some \<lparr>getName = Some ''T'', getData = [1, 5, 3]\<rparr> \<and>
   length (getPoints sample_polyData) = 3 * length [1, 5, 3::real] \<and>
   enableThreshold sample_mapper 2 =
     Inr (sample_mapper\<lparr>getInputData := Some (newPolyData\<lparr>getPoints := [1, 0, 0, 0, 1, 0]\<rparr>)\<rparr>) \<and>
   enableThreshold sample_mapper 0 =
     Inr (sample_mapper\<lparr>getInputData := Some (newPolyData\<lparr>getPoints :=
            [0, 0, 0, 1, 0, 0, 0, 1, 0]\<rparr>)\<rparr>) \<and>
   enableThreshold sample_mapper 5 =
     Inr (sample_mapper\<lparr>getInputData := Some (newPolyData\<lparr>getPoints := []\<rparr>)\<rparr>) \<and>
   getInputData mapper_one_scalar = Some polyData_one_scalar \<and>
   getScalars polyData_one_scalar = Some \<lparr>getName = Some ''T'', getData = [0]\<rparr> \<and>
   enableThreshold mapper_one_scalar (- 1) =
     Inr (mapper_one_scalar\<lparr>getInputData := Some (newPolyData\<lparr>getPoints := [0, 0, 0]\<rparr>)\<rparr>)"
proof -
  let ?arr = "\<lparr>getName = Some ''T'', getData = [1, 5, 3::real]\<rparr>"
  let ?one = "\<lparr>getName = Some ''T'', getData = [0::real]\<rparr>"
  have h1: "getInputData sample_mapper = Some sample_polyData"
    by (simp add: sample_mapper_def)
  have h2: "getScalars sample_polyData = Some ?arr"
    by (simp add: sample_polyData_def)
  have h3: "length (getPoints sample_polyData) = 3 * length (getData ?arr)"
    by (simp add: sample_polyData_def)
  have a: "\<forall>v \<in> set (getData ?arr). 0 < v" by simp
  have b: "\<forall>v \<in> set (getData ?arr). v \<le> 5" by simp
  have p: "concat (map (triple (getPoints sample_polyData)) (passing (getData ?arr) 2)) =
      [1, 0, 0, 0, 1, 0]"
    by (simp add: passing_def triple_def sample_polyData_def upt_rec)
  have pts: "getPoints sample_polyData = [0, 0, 0, 1, 0, 0, 0, 1, 0]"
    by (simp add: sample_polyData_def)
  have r2: "enableThreshold sample_mapper 2 =
      Inr (sample_mapper\<lparr>getInputData := Some (newPolyData\<lparr>getPoints := [1, 0, 0, 0, 1, 0]\<rparr>)\<rparr>)"
  proof -
    from threshold_filter_points [OF h1 h2, of 2] h3
    have "enableThreshold sample_mapper 2 =
        Inr (sample_mapper\<lparr>getInputData := Some (newPolyData\<lparr>getPoints :=
               concat (map (triple (getPoints sample_polyData)) (passing (getData ?arr) 2))\<rparr>)\<rparr>)"
      by blast
    then show ?thesis by (simp only: p)
  qed
  have r0: "enableThreshold sample_mapper 0 =
      Inr (sample_mapper\<lparr>getInputData := Some (newPolyData\<lparr>getPoints :=
             [0, 0, 0, 1, 0, 0, 0, 1, 0]\<rparr>)\<rparr>)"
  proof -
    from threshold_filter_points [OF h1 h2, of 0] h3 a
    have "enableThreshold sample_mapper 0 =
        Inr (sample_mapper\<lparr>getInputData :=
               Some (newPolyData\<lparr>getPoints := getPoints sample_polyData\<rparr>)\<rparr>)"
      by blast
    then show ?thesis by (simp only: pts)
  qed
  have r5: "enableThreshold sample_mapper 5 =
      Inr (sample_mapper\<lparr>getInputData := Some (newPolyData\<lparr>getPoints := []\<rparr>)\<rparr>)"
    using threshold_filter_points [OF h1 h2, of 5] b by blast
  have g1: "getInputData mapper_one_scalar = Some polyData_one_scalar"
    by (simp add: mapper_one_scalar_def applyColorMap_def Let_def)
  have g2: "getScalars polyData_one_scalar = Some ?one"
    by (simp add: polyData_one_scalar_def)
  have q: "nths (getPoints polyData_one_scalar) {k. passes (getData ?one) (- 1) (k div 3)} =
      [0, 0, 0]"
    unfolding filter_points_nths [symmetric]
    by (simp add: polyData_one_scalar_def filter_points_def threshold_mask_def truthy_def
        js_index_def)
  have r1: "enableThreshold mapper_one_scalar (- 1) =
      Inr (mapper_one_scalar\<lparr>getInputData := Some (newPolyData\<lparr>getPoints := [0, 0, 0]\<rparr>)\<rparr>)"
  proof -
    from threshold_filter_points [OF g1 g2, of "- 1"]
    have "enableThreshold mapper_one_scalar (- 1) =
        Inr (mapper_one_scalar\<lparr>getInputData := Some (newPolyData\<lparr>getPoints :=
               nths (getPoints polyData_one_scalar)
                 {k. passes (getData ?one) (- 1) (k div 3)}\<rparr>)\<rparr>)"
      by blast
    then show ?thesis by (simp only: q)
  qed
  from h1 h2 h3 r2 r0 r5 g1 g2 r1 show ?thesis by simp
qed

lemma addVTUToScene_doc_empty_scalars:
  "addVTUToScene decimal decimal_real doc_empty_scalars None =
     Inr (polyData_one_scalar, mapper_one_scalar, [Some ''T''])"
proof -
  have d: "point_data doc_empty_scalars = [(Some ''T'', [])]"
    by (simp add: doc_empty_scalars_def)
  have p: "extractPoints decimal_real doc_empty_scalars = Inr [0, 0, 0, 1, 0, 0, 0, 1, 0]"
    by (simp add: extractPoints_def doc_empty_scalars_def parse_defs)
  have t: "tessellate [0, 1, 2] [3] [5] = [Some 3, Some 0, Some 1, Some 2]"
    by (simp add: tessellate_def cell_step_push push_cell_def VTK_defs js_slice_def
        js_index_def relative_index_def)
  have c: "extractCells decimal doc_empty_scalars = Inr [3, 0, 1, 2]"
    by (simp add: extractCells_def doc_empty_scalars_def parse_defs t to_uint32_def)
  have f: "getAllScalarFields doc_empty_scalars = [Some ''T'']"
    by (simp add: getAllScalarFields_def d)
  have n: "scalar_name (select_scalar None [Some ''T'']) = ''T''"
    by (simp add: scalar_name_def select_scalar_def js_index_def)
  have s: "extractScalars decimal_real doc_empty_scalars ''T'' =
      Some \<lparr>getName = Some ''T'', getData = [0]\<rparr>"
    by (simp add: extractScalars_def d parse_defs)
  show ?thesis
    by (simp add: addVTUToScene_def Let_def p c f n s math_min_def math_max_def
        newPolyData_def polyData_one_scalar_def mapper_one_scalar_def)
qed

text \<open>
  C7, as the specification states it, fails on the mesh that \<open>addVTUToScene\<close> assembles
  from \<open>doc_empty_scalars\<close>: it has three points and the one scalar value 0. The threshold
  \<open>-1\<close> lies below every scalar value, and the filtered point buffer holds the first point
  only, not the three points of the original.
\<close>

theorem threshold_filter_points_counterexample:
  "addVTUToScene decimal decimal_real doc_empty_scalars None =
     Inr (polyData_one_scalar, mapper_one_scalar, [Some ''T'']) \<and>
   getInputData mapper_one_scalar = Some polyData_one_scalar \<and>
   getPoints polyData_one_scalar = [0, 0, 0, 1, 0, 0, 0, 1, 0] \<and>
   getScalars polyData_one_scalar = Some \<lparr>getName = Some ''T'', getData = [0]\<rparr> \<and>
   (- 1::real) < 0 \<and>
   enableThreshold mapper_one_scalar (- 1) =
     Inr (mapper_one_scalar\<lparr>getInputData := Some (newPolyData\<lparr>getPoints := [0, 0, 0]\<rparr>)\<rparr>) \<and>
   enableThreshold mapper_one_scalar (- 1) \<noteq>
     Inr (mapper_one_scalar\<lparr>getInputData :=
            Some (newPolyData\<lparr>getPoints := getPoints polyData_one_scalar\<rparr>)\<rparr>)"
proof -
  have g1: "getInputData mapper_one_scalar = Some polyData_one_scalar"
    by (simp add: mapper_one_scalar_def applyColorMap_def Let_def)
  have g2: "getScalars polyData_one_scalar = Some \<lparr>getName = Some ''T'', getData = [0]\<rparr>"
    and g3: "getPoints polyData_one_scalar = [0, 0, 0, 1, 0, 0, 0, 1, 0]"
    by (simp_all add: polyData_one_scalar_def)
  have f: "filter_points (threshold_mask [0] (- 1)) [0, 0, 0, 1, 0, 0, 0, 1, 0] = [0, 0, 0]"
    by (simp add: filter_points_def threshold_mask_def truthy_def js_index_def)
  have r: "enableThreshold mapper_one_scalar (- 1) =
      Inr (mapper_one_scalar\<lparr>getInputData := Some (newPolyData\<lparr>getPoints := [0, 0, 0]\<rparr>)\<rparr>)"
    using enableThreshold_run [OF g1 g2, of "- 1"] by (simp add: g3 f)
  have ne: "enableThreshold mapper_one_scalar (- 1) \<noteq>
      Inr (mapper_one_scalar\<lparr>getInputData :=
             Some (newPolyData\<lparr>getPoints := getPoints polyData_one_scalar\<rparr>)\<rparr>)"
  proof
    assume "enableThreshold mapper_one_scalar (- 1) =
      Inr (mapper_one_scalar\<lparr>getInputData :=
             Some (newPolyData\<lparr>getPoints := getPoints polyData_one_scalar\<rparr>)\<rparr>)"
    with r have "mapper_one_scalar\<lparr>getInputData := Some (newPolyData\<lparr>getPoints := [0, 0, 0]\<rparr>)\<rparr> =
        mapper_one_scalar\<lparr>getInputData :=
          Some (newPolyData\<lparr>getPoints := getPoints polyData_one_scalar\<rparr>)\<rparr>"
      by simp
    then have "getInputData (mapper_one_scalar\<lparr>getInputData :=
          Some (newPolyData\<lparr>getPoints := [0, 0, 0]\<rparr>)\<rparr>) =
        getInputData (mapper_one_scalar\<lparr>getInputData :=
          Some (newPolyData\<lparr>getPoints := getPoints polyData_one_scalar\<rparr>)\<rparr>)"
      by (rule arg_cong)
    then show False
      by (simp add: g3 newPolyData_def)
  qed
  from addVTUToScene_doc_empty_scalars g1 g2 g3 r ne show ?thesis by simp
qed

text \<open>
  C8. The mesh that the filter installs is a new poly data of which only the point buffer
  is set: its polygon buffer is empty and it has no scalar array, whatever triangles and
  scalars the filtered mesh had. Nothing is remapped or rebuilt for the kept points. The
  lookup table and the scalar range of the mapper stay as they were.
\<close>

theorem threshold_rebuilds_points_only:
  assumes "enableThreshold m t = Inr m'"
  shows "\<exists>pd'. getInputData m' = Some pd' \<and> getPolys pd' = [] \<and> getScalars pd' = None \<and>
           getLookupTable m' = getLookupTable m \<and> getScalarRange m' = getScalarRange m"
  using assms enableThreshold_cases [of m t] by (auto simp add: newPolyData_def)

theorem threshold_rebuilds_points_only_witness:
  "enableThreshold sample_mapper 2 =
     Inr (sample_mapper\<lparr>getInputData := Some (newPolyData\<lparr>getPoints := [1, 0, 0, 0, 1, 0]\<rparr>)\<rparr>) \<and>
   getPolys sample_polyData = [3, 0, 1, 2] \<and>
   (\<exists>pd'. getInputData (sample_mapper\<lparr>getInputData :=
              Some (newPolyData\<lparr>getPoints := [1, 0, 0, 0, 1, 0]\<rparr>)\<rparr>) = Some pd' \<and>
          getPolys pd' = [] \<and> getScalars pd' = None)"
proof -
  have run: "enableThreshold sample_mapper 2 =
      Inr (sample_mapper\<lparr>getInputData := Some (newPolyData\<lparr>getPoints := [1, 0, 0, 0, 1, 0]\<rparr>)\<rparr>)"
    by (simp add: enableThreshold_def sample_mapper_def sample_polyData_def Let_def
        threshold_mask_def filter_points_def truthy_def js_index_def)
  have polys: "getPolys sample_polyData = [3, 0, 1, 2]"
    by (simp add: sample_polyData_def)
  from threshold_rebuilds_points_only [OF run] run polys show ?thesis by blast
qed

text \<open>
  C10. After one successful application of the filter the mesh installed in the mapper has
  no scalar array, so a second application to the same actor does not filter again: it
  fails with a \<open>TypeError\<close>, for every mesh and every two thresholds. An application
  that fails leaves the actor as it was, and fails again in the same way.
\<close>

theorem threshold_twice_fails:
  "(enableThreshold m t1 = Inr m' \<longrightarrow>
      (\<exists>pd'. getInputData m' = Some pd' \<and> getScalars pd' = None) \<and>
      enableThreshold m' t2 = Inl TypeError) \<and>
   (enableThreshold n t1 = Inl e \<longrightarrow> e = TypeError \<and> enableThreshold n t2 = Inl TypeError)"
proof (intro conjI impI)
  assume run: "enableThreshold m t1 = Inr m'"
  then obtain points where
    m': "m' = m\<lparr>getInputData := Some (newPolyData\<lparr>getPoints := points\<rparr>)\<rparr>"
    using enableThreshold_cases [of m t1] by auto
  have i: "getInputData m' = Some (newPolyData\<lparr>getPoints := points\<rparr>)"
    by (simp add: m')
  have s: "getScalars (newPolyData\<lparr>getPoints := points\<rparr>) = None"
    by (simp add: newPolyData_def)
  from i s show "\<exists>pd'. getInputData m' = Some pd' \<and> getScalars pd' = None"
    by blast
  from i s show "enableThreshold m' t2 = Inl TypeError"
    by (rule enableThreshold_no_scalars)
next
  assume fail: "enableThreshold n t1 = Inl e"
  then show "e = TypeError"
    using enableThreshold_cases [of n t1] by auto
  from fail show "enableThreshold n t2 = Inl TypeError"
    by (rule enableThreshold_fails_again)
qed

theorem threshold_twice_fails_witness:
  "enableThreshold sample_mapper 2 =
     Inr (sample_mapper\<lparr>getInputData := Some (newPolyData\<lparr>getPoints := [1, 0, 0, 0, 1, 0]\<rparr>)\<rparr>) \<and>
   enableThreshold (sample_mapper\<lparr>getInputData :=
       Some (newPolyData\<lparr>getPoints := [1, 0, 0, 0, 1, 0]\<rparr>)\<rparr>) 4 = Inl TypeError \<and>
   enableThreshold newMapper 2 = Inl TypeError \<and>
   enableThreshold newMapper 4 = Inl TypeError"
proof -
  have run: "enableThreshold sample_mapper 2 =
      Inr (sample_mapper\<lparr>getInputData := Some (newPolyData\<lparr>getPoints := [1, 0, 0, 0, 1, 0]\<rparr>)\<rparr>)"
    by (simp add: enableThreshold_def sample_mapper_def sample_polyData_def Let_def
        threshold_mask_def filter_points_def truthy_def js_index_def)
  have fail: "enableThreshold newMapper 2 = Inl TypeError"
    by (simp add: enableThreshold_def newMapper_def)
  from threshold_twice_fails [of sample_mapper 2 _ 4 newMapper TypeError] run fail
  show ?thesis by simp
qed

subsection \<open>Assembling a mesh whose scalar array lists no value\<close>

lemma math_min_max_single: "math_min [v] = Finite v" "math_max [v] = Finite v"
  by (simp_all add: math_min_def math_max_def)

lemma extractCells_present:
  assumes "connectivity_text xmlDoc = Some c" and "offsets_text xmlDoc = Some off"
    and "types_text xmlDoc = Some ty"
  shows "extractCells num xmlDoc =
     Inr (map to_uint32 (tessellate (parse_numbers num c) (parse_numbers num off)
            (parse_numbers num ty)))"
  using assms by (simp add: extractCells_def)

lemma extractScalars_found:
  assumes "find (\<lambda>scalarTag. fst scalarTag = Some scalarName) (point_data xmlDoc) =
      Some (name, text)"
  shows "extractScalars num xmlDoc scalarName =
     Some \<lparr>getName = name, getData = parse_numbers num text\<rparr>"
  using assms by (simp add: extractScalars_def)

text \<open>
  C9, as the code has it. No check for an empty scalar field exists. When the points, the
  three cell arrays and the chosen scalar array are present and the text of the scalar
  array lists no value (it is empty or white space), the text is read as the single value
  0: assembly succeeds, the mesh carries the scalar array \<open>[0]\<close>, and the scalar range of
  the colour map is \<open>(0, 0)\<close>.
\<close>

theorem empty_scalar_field_assembles:
  assumes "points_text xmlDoc = Some pointsText"
    and "connectivity_text xmlDoc = Some c" and "offsets_text xmlDoc = Some off"
    and "types_text xmlDoc = Some ty"
    and "find (\<lambda>scalarTag. fst scalarTag =
            Some (scalar_name (select_scalar scalarField (getAllScalarFields xmlDoc))))
          (point_data xmlDoc) = Some (name, text)"
    and "js_trim text = []"
  shows "\<exists>polyData mapper.
           addVTUToScene inum rnum xmlDoc scalarField =
             Inr (polyData, mapper, getAllScalarFields xmlDoc) \<and>
           getScalars polyData = Some \<lparr>getName = name, getData = [0]\<rparr> \<and>
           getInputData mapper = Some polyData \<and>
           getScalarRange mapper = (Finite 0, Finite 0)"
proof -
  have p: "extractPoints rnum xmlDoc = Inr (parse_numbers rnum pointsText)"
    using assms(1) by (simp add: extractPoints_def)
  note cells = extractCells_present [OF assms(2,3,4), of inum]
  have s: "extractScalars rnum xmlDoc
        (scalar_name (select_scalar scalarField (getAllScalarFields xmlDoc))) =
      Some \<lparr>getName = name, getData = [0]\<rparr>"
    using extractScalars_found [OF assms(5), of rnum] parse_numbers_blank [OF assms(6), of rnum]
    by simp
  show ?thesis
    by (simp add: addVTUToScene_def Let_def p cells s math_min_max_single
        applyColorMap_range applyColorMap_def)
qed

theorem empty_scalar_field_assembles_witness:
  "points_text doc_empty_scalars = Some ''0 0 0 1 0 0 0 1 0'' \<and>
   find (\<lambda>scalarTag. fst scalarTag = Some ''T'') (point_data doc_empty_scalars) =
     Some (Some ''T'', []) \<and>
   js_trim [] = [] \<and>
   (\<exists>polyData mapper.
      addVTUToScene decimal decimal_real doc_empty_scalars None =
        Inr (polyData, mapper, [Some ''T'']) \<and>
      getScalars polyData = Some \<lparr>getName = Some ''T'', getData = [0]\<rparr> \<and>
      getScalarRange mapper = (Finite 0, Finite 0))"
proof -
  have h1: "points_text doc_empty_scalars = Some ''0 0 0 1 0 0 0 1 0''"
    and h2: "connectivity_text doc_empty_scalars = Some ''0 1 2''"
    and h3: "offsets_text doc_empty_scalars = Some ''3''"
    and h4: "types_text doc_empty_scalars = Some ''5''"
    by (simp_all add: doc_empty_scalars_def)
  have f: "getAllScalarFields doc_empty_scalars = [Some ''T'']"
    by (simp add: getAllScalarFields_def doc_empty_scalars_def)
  have n: "scalar_name (select_scalar None (getAllScalarFields doc_empty_scalars)) = ''T''"
    by (simp add: f scalar_name_def select_scalar_def js_index_def)
  have h5: "find (\<lambda>scalarTag. fst scalarTag =
        Some (scalar_name (select_scalar None (getAllScalarFields doc_empty_scalars))))
      (point_data doc_empty_scalars) = Some (Some ''T'', [])"
    unfolding n by (simp add: doc_empty_scalars_def)
  have h6: "js_trim [] = []"
    by (simp add: js_trim_def)
  from empty_scalar_field_assembles [OF h1 h2 h3 h4 h5 h6, of decimal decimal_real]
  have "\<exists>polyData mapper.
      addVTUToScene decimal decimal_real doc_empty_scalars None =
        Inr (polyData, mapper, [Some ''T'']) \<and>
      getScalars polyData = Some \<lparr>getName = Some ''T'', getData = [0]\<rparr> \<and>
      getScalarRange mapper = (Finite 0, Finite 0)"
    unfolding f by blast
  with h1 h5 h6 show ?thesis
    unfolding n by blast
qed

text \<open>
  C9, as the specification states it, fails on the document \<open>doc_empty_scalars\<close>, whose
  chosen scalar array \<open>T\<close> lists no value: assembly raises no error and returns a mesh
  whose colour range is \<open>(0, 0)\<close>.
\<close>

theorem empty_scalar_field_counterexample:
  "point_data doc_empty_scalars = [(Some ''T'', [])] \<and>
   \<not> isl (addVTUToScene decimal decimal_real doc_empty_scalars None) \<and>
   getScalarRange (fst (snd (projr (addVTUToScene decimal decimal_real doc_empty_scalars None)))) =
     (Finite 0, Finite 0)"
proof -
  let ?pd = "\<lparr>getPoints = [0, 0, 0, 1, 0, 0, 0, 1, 0], getPolys = [3, 0, 1, 2],
    getScalars = Some \<lparr>getName = Some ''T'', getData = [0]\<rparr>\<rparr>"
  have d: "point_data doc_empty_scalars = [(Some ''T'', [])]"
    by (simp add: doc_empty_scalars_def)
  have p: "extractPoints decimal_real doc_empty_scalars = Inr [0, 0, 0, 1, 0, 0, 0, 1, 0]"
    by (simp add: extractPoints_def doc_empty_scalars_def parse_defs)
  have t: "tessellate [0, 1, 2] [3] [5] = [Some 3, Some 0, Some 1, Some 2]"
    by (simp add: tessellate_def cell_step_push push_cell_def VTK_defs js_slice_def
        js_index_def relative_index_def)
  have c: "extractCells decimal doc_empty_scalars = Inr [3, 0, 1, 2]"
    by (simp add: extractCells_def doc_empty_scalars_def parse_defs t to_uint32_def)
  have f: "getAllScalarFields doc_empty_scalars = [Some ''T'']"
    by (simp add: getAllScalarFields_def d)
  have n: "scalar_name (select_scalar None [Some ''T'']) = ''T''"
    by (simp add: scalar_name_def select_scalar_def js_index_def)
  have s: "extractScalars decimal_real doc_empty_scalars ''T'' =
      Some \<lparr>getName = Some ''T'', getData = [0]\<rparr>"
    by (simp add: extractScalars_def d parse_defs)
  have run: "addVTUToScene decimal decimal_real doc_empty_scalars None =
      Inr (?pd, applyColorMap (newMapper\<lparr>getInputData := Some ?pd\<rparr>) (Finite 0, Finite 0),
           [Some ''T''])"
    by (simp add: addVTUToScene_def Let_def p c f n s math_min_def math_max_def
        newPolyData_def)
  show ?thesis
    unfolding run by (simp add: d applyColorMap_def Let_def)
qed

end
